theory Spec2Isabelle
  imports Main
begin

section \<open>Webhook delivery tasks (saleor/plugins/webhook/tasks.py)\<close>

text \<open>
  A shallow embedding of the delivery dispatch engine. Text is modelled as
  \<open>string\<close>; a payload and its UTF-8 encoding are the same list of characters, so
  \<open>data.encode("utf-8")\<close> and \<open>message.decode("utf-8")\<close> are the identity.
  Everything the module calls but does not define (the standard library's URL and JSON
  functions, the signer, the HTTP, SQS and Pub/Sub clients, the settings and the current
  site) is a field of the record \<open>world\<close>, so every statement holds for any behaviour
  of these collaborators. Exceptions are values: a function that can raise returns
  \<open>py_exception + 'a\<close>, with \<open>Inl\<close> for the exception that leaves the function.
\<close>

subsection \<open>Python's string operations\<close>

text \<open>\<open>str.lower\<close> on ASCII text: the letters A to Z are mapped, all else is kept.\<close>

definition lower_char :: "char \<Rightarrow> char" where
  "lower_char c =
     (case map_of (zip ''ABCDEFGHIJKLMNOPQRSTUVWXYZ'' ''abcdefghijklmnopqrstuvwxyz'') c of
        None \<Rightarrow> c
      | Some l \<Rightarrow> l)"

definition lower :: "string \<Rightarrow> string" where
  "lower s = map lower_char s"

text \<open>\<open>s.split(sep)\<close> for a separator of one character: never an empty list.\<close>

fun split :: "string \<Rightarrow> char \<Rightarrow> string list" where
  "split [] sep = [[]]"
| "split (c # cs) sep =
     (if c = sep then [] # split cs sep
      else (case split cs sep of [] \<Rightarrow> [[c]] | w # ws \<Rightarrow> (c # w) # ws))"

definition endswith :: "string \<Rightarrow> string \<Rightarrow> bool" where
  "endswith s suffix =
     (length suffix \<le> length s \<and> drop (length s - length suffix) s = suffix)"

subsection \<open>Data model\<close>

datatype EventDeliveryStatus = PENDING | SUCCESS | FAILED

text \<open>
  \<open>WebhookSchemes\<close> is a \<open>str\<close> enumeration: its members hash and compare as their
  values, so a dictionary keyed by the members is looked up by the value.
\<close>

datatype WebhookSchemes = HTTP | HTTPS | AWS_SQS | GOOGLE_CLOUD_PUBSUB

fun scheme_value :: "WebhookSchemes \<Rightarrow> string" where
  "scheme_value HTTP = ''http''"
| "scheme_value HTTPS = ''https''"
| "scheme_value AWS_SQS = ''awssqs''"
| "scheme_value GOOGLE_CLOUD_PUBSUB = ''gcpubsub''"

type_synonym headers = "(string \<times> string) list"

text \<open>Durations are kept in microseconds (the source holds seconds as a float).\<close>

record WebhookResponse =
  content :: string
  request_headers :: "headers option"
  response_headers :: "headers option"
  response_status_code :: "int option"
  status :: EventDeliveryStatus
  duration :: nat

text \<open>The dataclass's defaults: \<open>WebhookResponse(content=c)\<close>.\<close>

definition WebhookResponse_init :: "string \<Rightarrow> WebhookResponse" where
  "WebhookResponse_init c =
     \<lparr>content = c, request_headers = None, response_headers = None,
      response_status_code = None, status = SUCCESS, duration = 0\<rparr>"

text \<open>
  What \<open>requests.post\<close> returns. \<open>ok\<close> is the library's property: true unless the
  status code is a client or server error (\<open>400 \<le> status_code < 600\<close>).
\<close>

record Response =
  resp_text :: string
  headers :: headers
  status_code :: int
  elapsed :: nat

definition ok :: "Response \<Rightarrow> bool" where
  "ok r = (\<not> (400 \<le> status_code r \<and> status_code r < 600))"

text \<open>
  The exception classes the module names or can meet. A raised exception is recorded
  with the most specific of these classes it belongs to; \<open>isinstance\<close> adds the
  subclass relations among them (\<open>MessageTooLargeError\<close> and \<open>JSONDecodeError\<close> both
  derive from \<open>ValueError\<close>, \<open>RecursionError\<close> from \<open>RuntimeError\<close>).
  \<open>OtherException\<close> stands for every class outside these, such as botocore's
  connection errors, which are not \<open>ClientError\<close>s. \<open>exc_response\<close> is the
  \<open>response\<close> attribute of a \<open>RequestException\<close>.
\<close>

datatype exc_class =
  RequestException | ClientError | MessageTooLargeError | RuntimeError | ValueError
  | JSONDecodeError | RecursionError | AttributeError | OtherException

record py_exception =
  exc_class :: exc_class
  exc_str :: string
  exc_response :: "Response option"

definition isinstance :: "py_exception \<Rightarrow> exc_class \<Rightarrow> bool" where
  "isinstance e c =
     (exc_class e = c
      \<or> (c = ValueError \<and> (exc_class e = MessageTooLargeError \<or> exc_class e = JSONDecodeError))
      \<or> (c = RuntimeError \<and> exc_class e = RecursionError))"

text \<open>\<open>except classes as e\<close>: the exception is an instance of one of the classes.\<close>

definition caught_by :: "py_exception \<Rightarrow> exc_class list \<Rightarrow> bool" where
  "caught_by e classes = list_ex (isinstance e) classes"

text \<open>The attributes of \<open>urlparse\<close>'s result that the module reads.\<close>

record ParseResult =
  scheme :: string
  username :: "string option"
  password :: "string option"
  hostname :: "string option"
  path :: string
  params :: string
  query :: string
  fragment :: string

text \<open>A decoded JSON value; \<open>JNone\<close> is Python's \<open>None\<close>.\<close>

datatype json =
  JNone | JBool bool | JInt int | JStr string | JList "json list"
  | JDict "(string \<times> json) list"

text \<open>The arguments of \<open>boto3.client("sqs", ...)\<close> and of \<open>client.send_message\<close>.\<close>

record sqs_client =
  region_name :: string
  aws_access_key_id :: "string option"
  aws_secret_access_key :: "string option"

text \<open>A message attribute is its name, its \<open>DataType\<close> and its \<open>StringValue\<close>.\<close>

record message_kwargs =
  QueueUrl :: string
  MessageAttributes :: "(string \<times> string \<times> string) list"
  MessageBody :: string
  MessageGroupId :: "string option"

text \<open>
  The collaborators. \<open>requests_post url data headers timeout\<close>,
  \<open>sqs_send_message client kwargs\<close> and \<open>pubsub_publish topic message attributes\<close>
  either raise or return; the two queue clients return the acknowledgement with the
  duration that \<open>catch_duration_time\<close> measured. \<open>boto3_client\<close> is the exception
  that \<open>boto3.client("sqs", ...)\<close> raises for its arguments (it validates the region
  name), or \<open>None\<close> when the client is built; a client is known by its arguments.
  \<open>pubsub_publisher_client\<close> is likewise the exception that
  \<open>pubsub_v1.PublisherClient()\<close> raises (it looks for credentials), if any.
  \<open>json_loads\<close> either raises (\<open>JSONDecodeError\<close> for a malformed text, but also
  \<open>RecursionError\<close> or a plain \<open>ValueError\<close>) or returns the decoded value.
  \<open>py_repr\<close> is the \<open>%r\<close> conversion.
\<close>

record world =
  urlparse :: "string \<Rightarrow> ParseResult"
  urlunparse :: "string \<times> string \<times> string \<times> string \<times> string \<times> string \<Rightarrow> string"
  py_repr :: "string \<Rightarrow> string"
  json_loads :: "string \<Rightarrow> py_exception + json"
  signature_for_payload :: "string \<Rightarrow> string option \<Rightarrow> string"
  current_domain :: string
  WEBHOOK_TIMEOUT :: nat
  WEBHOOK_SYNC_TIMEOUT :: nat
  requests_post :: "string \<Rightarrow> string \<Rightarrow> headers \<Rightarrow> nat \<Rightarrow> py_exception + Response"
  boto3_client :: "sqs_client \<Rightarrow> py_exception option"
  sqs_send_message :: "sqs_client \<Rightarrow> message_kwargs \<Rightarrow> py_exception + string \<times> nat"
  pubsub_publisher_client :: "py_exception option"
  pubsub_publish :: "string \<Rightarrow> string \<Rightarrow> headers \<Rightarrow> py_exception + string \<times> nat"

subsection \<open>Transport adapters\<close>

definition http_headers :: "string \<Rightarrow> string \<Rightarrow> string \<Rightarrow> headers" where
  "http_headers event_type domain signature =
     [(''Content-Type'', ''application/json''),
      (''X-Saleor-Event'', event_type),
      (''X-Saleor-Domain'', domain),
      (''X-Saleor-Signature'', signature),
      (''Saleor-Event'', event_type),
      (''Saleor-Domain'', domain),
      (''Saleor-Signature'', signature)]"

definition send_webhook_using_http ::
  "world \<Rightarrow> string \<Rightarrow> string \<Rightarrow> string \<Rightarrow> string \<Rightarrow> string \<Rightarrow> nat
    \<Rightarrow> py_exception + WebhookResponse" where
  "send_webhook_using_http w target_url message domain signature event_type timeout =
     (let hs = http_headers event_type domain signature in
      case requests_post w target_url message hs timeout of
        Inl e \<Rightarrow> Inl e
      | Inr response \<Rightarrow>
          Inr \<lparr>content = resp_text response,
               request_headers = Some hs,
               response_headers = Some (headers response),
               response_status_code = Some (status_code response),
               status = (if ok response then SUCCESS else FAILED),
               duration = elapsed response\<rparr>)"

text \<open>
  \<open>parts.hostname\<close> is \<open>None\<close> for a URL without a host, and \<open>None.split\<close> raises
  \<open>AttributeError\<close>. The client is built before the queue URL and the message.
\<close>

definition send_webhook_using_aws_sqs ::
  "world \<Rightarrow> string \<Rightarrow> string \<Rightarrow> string \<Rightarrow> string \<Rightarrow> string
    \<Rightarrow> py_exception + WebhookResponse" where
  "send_webhook_using_aws_sqs w target_url message domain signature event_type =
     (let parts = urlparse w target_url in
      case hostname parts of
        None \<Rightarrow>
          Inl \<lparr>exc_class = AttributeError,
               exc_str =
                 CHR 0x27 # ''NoneType'' @ CHR 0x27 # '' object has no attribute ''
                 @ CHR 0x27 # ''split'' @ [CHR 0x27],
               exc_response = None\<rparr>
      | Some host \<Rightarrow>
          (let hostname_parts = split host (CHR ''.'');
               region =
                 (if length hostname_parts = 4 \<and> hostname_parts ! 0 = ''sqs''
                  then hostname_parts ! 1 else ''us-east-1'');
               client =
                 \<lparr>region_name = region,
                  aws_access_key_id = username parts,
                  aws_secret_access_key = password parts\<rparr>
           in case boto3_client w client of
                Some e \<Rightarrow> Inl e
              | None \<Rightarrow>
                  (let queue_url =
                         urlunparse w
                           (''https'', host, path parts, params parts, query parts,
                            fragment parts);
                       is_fifo = endswith (path parts) ''.fifo'';
                       msg_attributes =
                         [(''SaleorDomain'', ''String'', domain),
                          (''EventType'', ''String'', event_type)]
                         @ (if signature \<noteq> []
                            then [(''Signature'', ''String'', signature)] else []);
                       kwargs =
                         \<lparr>QueueUrl = queue_url,
                          MessageAttributes = msg_attributes,
                          MessageBody = message,
                          MessageGroupId = (if is_fifo then Some domain else None)\<rparr>
                   in case sqs_send_message w client kwargs of
                        Inl e \<Rightarrow> Inl e
                      | Inr (response, d) \<Rightarrow>
                          Inr ((WebhookResponse_init response)\<lparr>duration := d\<rparr>))))"

definition send_webhook_using_google_cloud_pubsub ::
  "world \<Rightarrow> string \<Rightarrow> string \<Rightarrow> string \<Rightarrow> string \<Rightarrow> string
    \<Rightarrow> py_exception + WebhookResponse" where
  "send_webhook_using_google_cloud_pubsub w target_url message domain signature event_type =
     (let parts = urlparse w target_url in
      case pubsub_publisher_client w of
        Some e \<Rightarrow> Inl e
      | None \<Rightarrow>
          (let topic_name = drop 1 (path parts)
           in case pubsub_publish w topic_name message
                     [(''saleorDomain'', domain), (''eventType'', event_type),
                      (''signature'', signature)] of
                Inl e \<Rightarrow> Inl e
              | Inr (response, response_duration) \<Rightarrow>
                  Inr ((WebhookResponse_init response)\<lparr>duration := response_duration\<rparr>)))"

subsection \<open>Dispatch router\<close>

type_synonym send_method =
  "world \<Rightarrow> string \<Rightarrow> string \<Rightarrow> string \<Rightarrow> string \<Rightarrow> string \<Rightarrow> py_exception + WebhookResponse"

text \<open>
  The dictionary \<open>scheme_matrix\<close>, in the source's order. The HTTP adapter is called
  without a timeout, so it runs with its default \<open>WEBHOOK_TIMEOUT\<close>.
\<close>

definition scheme_matrix :: "(WebhookSchemes \<times> send_method \<times> exc_class list) list" where
  "scheme_matrix =
     [(HTTP, (\<lambda>w u m d sg ev. send_webhook_using_http w u m d sg ev (WEBHOOK_TIMEOUT w)),
         [RequestException]),
      (HTTPS, (\<lambda>w u m d sg ev. send_webhook_using_http w u m d sg ev (WEBHOOK_TIMEOUT w)),
         [RequestException]),
      (AWS_SQS, send_webhook_using_aws_sqs, [ClientError]),
      (GOOGLE_CLOUD_PUBSUB, send_webhook_using_google_cloud_pubsub,
         [MessageTooLargeError, RuntimeError])]"

text \<open>\<open>scheme_matrix.get(key)\<close> for a \<open>str\<close> key.\<close>

definition scheme_matrix_get :: "string \<Rightarrow> (send_method \<times> exc_class list) option" where
  "scheme_matrix_get key = map_of (map (\<lambda>(k, v). (scheme_value k, v)) scheme_matrix) key"

definition unknown_scheme_error :: "world \<Rightarrow> ParseResult \<Rightarrow> py_exception" where
  "unknown_scheme_error w parts =
     \<lparr>exc_class = ValueError,
      exc_str = ''Unknown webhook scheme: '' @ py_repr w (scheme parts),
      exc_response = None\<rparr>"

definition send_webhook_using_scheme_method ::
  "world \<Rightarrow> string \<Rightarrow> string \<Rightarrow> string option \<Rightarrow> string \<Rightarrow> string
    \<Rightarrow> py_exception + WebhookResponse" where
  "send_webhook_using_scheme_method w target_url domain secret event_type data =
     (let parts = urlparse w target_url;
          message = data;
          signature = signature_for_payload w message secret
      in case scheme_matrix_get (lower (scheme parts)) of
           Some (send_method, send_exception) \<Rightarrow>
             (case send_method w target_url message domain signature event_type of
                Inr r \<Rightarrow> Inr r
              | Inl e \<Rightarrow>
                  if caught_by e send_exception
                  then Inr ((WebhookResponse_init (exc_str e))\<lparr>status := FAILED\<rparr>)
                  else Inl e)
         | None \<Rightarrow> Inl (unknown_scheme_error w parts))"

subsection \<open>Persistent records and the store\<close>

text \<open>
  A row of \<open>EventDelivery\<close> is held with its payload and its webhook (and the
  webhook's app), as \<open>select_related("payload", "webhook__app")\<close> loads it. An object
  that has not been saved yet has the key 0. The result fields of an attempt are empty
  until the transport call has returned.
\<close>

record Webhook =
  webhook_id :: nat
  webhook_app :: string
  target_url :: string
  secret_key :: "string option"
  is_active :: bool
  subscription_query :: "string option"

record EventPayload =
  payload_id :: nat
  payload_text :: string

record EventDelivery =
  delivery_id :: nat
  delivery_status :: EventDeliveryStatus
  delivery_event_type :: string
  delivery_payload :: EventPayload
  delivery_webhook :: Webhook

record EventDeliveryAttempt =
  attempt_id :: nat
  attempt_delivery :: nat
  task_id :: "string option"
  attempt_duration :: "nat option"
  attempt_response :: "string option"
  attempt_request_headers :: "headers option"
  attempt_response_headers :: "headers option"
  attempt_response_status_code :: "int option"
  attempt_status :: "EventDeliveryStatus option"

text \<open>
  A message of the job queue for the task \<open>send_webhook_request_async\<close>: its argument,
  the delay asked for (none for \<open>delay\<close>) and the number of retries it carries.
\<close>

record task_message =
  msg_delivery_id :: nat
  msg_countdown :: "nat option"
  msg_retries :: nat

record store =
  payload_rows :: "EventPayload list"
  delivery_rows :: "EventDelivery list"
  attempt_rows :: "EventDeliveryAttempt list"
  task_queue :: "task_message list"
  cleanup_eligible :: "nat list"

text \<open>The next key of a table: above every key in use.\<close>

definition fresh_id :: "nat list \<Rightarrow> nat" where
  "fresh_id ids = Suc (foldr max ids 0)"

text \<open>\<open>EventDelivery.objects.get(id=...)\<close>; \<open>None\<close> is \<open>DoesNotExist\<close>.\<close>

definition get_delivery :: "store \<Rightarrow> nat \<Rightarrow> EventDelivery option" where
  "get_delivery s i = find (\<lambda>d. delivery_id d = i) (delivery_rows s)"

text \<open>\<open>EventPayload.objects.create(payload=data)\<close>.\<close>

definition EventPayload_create :: "string \<Rightarrow> store \<Rightarrow> EventPayload \<times> store" where
  "EventPayload_create data s =
     (let p = \<lparr>payload_id = fresh_id (map payload_id (payload_rows s)), payload_text = data\<rparr>
      in (p, s\<lparr>payload_rows := payload_rows s @ [p]\<rparr>))"

text \<open>\<open>bulk_create\<close>: the objects are saved in order and returned with their keys.\<close>

fun bulk_create_payloads :: "string list \<Rightarrow> store \<Rightarrow> EventPayload list \<times> store" where
  "bulk_create_payloads [] s = ([], s)"
| "bulk_create_payloads (t # ts) s =
     (let (p, s1) = EventPayload_create t s;
          (ps, s2) = bulk_create_payloads ts s1
      in (p # ps, s2))"

fun bulk_create_deliveries :: "EventDelivery list \<Rightarrow> store \<Rightarrow> EventDelivery list \<times> store" where
  "bulk_create_deliveries [] s = ([], s)"
| "bulk_create_deliveries (d # ds) s =
     (let d1 = d\<lparr>delivery_id := fresh_id (map delivery_id (delivery_rows s))\<rparr>;
          (ds1, s1) = bulk_create_deliveries ds (s\<lparr>delivery_rows := delivery_rows s @ [d1]\<rparr>)
      in (d1 # ds1, s1))"

text \<open>
  Modelled from the spec: \<open>create_attempt\<close> of \<open>utils.py\<close>, which is not among the
  sources. "Create a new DeliveryAttempt tied to the current job identifier"; "a new
  attempt is created before every transmission".
\<close>

definition create_attempt ::
  "EventDelivery \<Rightarrow> string option \<Rightarrow> store \<Rightarrow> EventDeliveryAttempt \<times> store" where
  "create_attempt delivery tid s =
     (let attempt =
            \<lparr>attempt_id = fresh_id (map attempt_id (attempt_rows s)),
             attempt_delivery = delivery_id delivery,
             task_id = tid,
             attempt_duration = None,
             attempt_response = None,
             attempt_request_headers = None,
             attempt_response_headers = None,
             attempt_response_status_code = None,
             attempt_status = None\<rparr>
      in (attempt, s\<lparr>attempt_rows := attempt_rows s @ [attempt]\<rparr>))"

text \<open>
  Modelled from the spec: \<open>attempt_update\<close> of \<open>utils.py\<close>, which is not among the
  sources. "Record the result onto the attempt": duration, response status, response
  content, request headers, response headers and response status code.
\<close>

definition attempt_update :: "EventDeliveryAttempt \<Rightarrow> WebhookResponse \<Rightarrow> store \<Rightarrow> store" where
  "attempt_update attempt webhook_response s =
     s\<lparr>attempt_rows :=
         map (\<lambda>a. if attempt_id a = attempt_id attempt
                   then a\<lparr>attempt_duration := Some (duration webhook_response),
                          attempt_response := Some (content webhook_response),
                          attempt_request_headers := request_headers webhook_response,
                          attempt_response_headers := response_headers webhook_response,
                          attempt_response_status_code :=
                            response_status_code webhook_response,
                          attempt_status := Some (status webhook_response)\<rparr>
                   else a)
           (attempt_rows s)\<rparr>"

text \<open>
  Modelled from the spec: \<open>delivery_update\<close> of \<open>utils.py\<close>, which is not among the
  sources. "Mark the EventDelivery" with a status: the object and its row.
\<close>

definition delivery_update ::
  "EventDelivery \<Rightarrow> EventDeliveryStatus \<Rightarrow> store \<Rightarrow> EventDelivery \<times> store" where
  "delivery_update delivery st s =
     (delivery\<lparr>delivery_status := st\<rparr>,
      s\<lparr>delivery_rows :=
          map (\<lambda>d. if delivery_id d = delivery_id delivery
                    then d\<lparr>delivery_status := st\<rparr> else d)
            (delivery_rows s)\<rparr>)"

text \<open>
  Modelled from the spec: \<open>clear_successful_delivery\<close> of \<open>utils.py\<close>, which is not
  among the sources. "On terminal success, the EventDelivery and its attempt history
  become eligible for cleanup/archival by storage housekeeping (not required to happen
  synchronously)."
\<close>

definition clear_successful_delivery :: "EventDelivery \<Rightarrow> store \<Rightarrow> store" where
  "clear_successful_delivery delivery s =
     (if delivery_status delivery = SUCCESS
      then s\<lparr>cleanup_eligible := cleanup_eligible s @ [delivery_id delivery]\<rparr>
      else s)"

text \<open>
  Modelled from the spec: \<open>create_event_delivery_list_for_webhooks\<close> of \<open>utils.py\<close>,
  which is not among the sources. "Create one EventDelivery per endpoint referencing that
  shared payload", for the endpoints it is given, each \<open>PENDING\<close>.
\<close>

definition create_event_delivery_list_for_webhooks ::
  "Webhook list \<Rightarrow> EventPayload \<Rightarrow> string \<Rightarrow> store \<Rightarrow> EventDelivery list \<times> store" where
  "create_event_delivery_list_for_webhooks webhooks event_payload event_type s =
     bulk_create_deliveries
       (map (\<lambda>webhook.
               \<lparr>delivery_id = 0, delivery_status = PENDING, delivery_event_type = event_type,
                delivery_payload = event_payload, delivery_webhook = webhook\<rparr>)
          webhooks)
       s"

subsection \<open>The task and its retry\<close>

text \<open>\<open>self.request\<close>: the task's identifier and the retries made so far.\<close>

record task_request =
  request_id :: string
  request_retries :: nat

text \<open>The options of the decorator \<open>app.task\<close>.\<close>

definition retry_backoff :: nat where
  "retry_backoff = 10"

definition max_retries :: nat where
  "max_retries = 5"

datatype retry_signal = Retry | MaxRetriesExceededError

text \<open>
  Celery's \<open>Task.retry(countdown=..., max_retries=...)\<close> in a worker: with
  \<open>retries = request.retries + 1\<close>, it raises \<open>MaxRetriesExceededError\<close> when
  \<open>retries > max_retries\<close>, and otherwise sends the task again with the countdown and
  the new count and raises \<open>Retry\<close>.
\<close>

definition retry :: "task_request \<Rightarrow> nat \<Rightarrow> nat \<Rightarrow> nat \<Rightarrow> store \<Rightarrow> retry_signal \<times> store" where
  "retry request event_delivery_id countdown limit s =
     (let retries = request_retries request + 1 in
      if retries > limit then (MaxRetriesExceededError, s)
      else (Retry,
            s\<lparr>task_queue := task_queue s @
                [\<lparr>msg_delivery_id = event_delivery_id, msg_countdown = Some countdown,
                  msg_retries = retries\<rparr>]\<rparr>))"

text \<open>\<open>send_webhook_request_async.delay(id)\<close>.\<close>

definition delay :: "nat \<Rightarrow> store \<Rightarrow> store" where
  "delay event_delivery_id s =
     s\<lparr>task_queue := task_queue s @
         [\<lparr>msg_delivery_id = event_delivery_id, msg_countdown = None, msg_retries = 0\<rparr>]\<rparr>"

text \<open>How a run of the task ends: it returns, it raises \<open>Retry\<close>, or an exception leaves it.\<close>

datatype task_outcome = Returned | Retried | Raised py_exception

subsection \<open>Delivery orchestrator, async path\<close>

definition send_webhook_request_async ::
  "world \<Rightarrow> task_request \<Rightarrow> nat \<Rightarrow> store \<Rightarrow> task_outcome \<times> store" where
  "send_webhook_request_async w self event_delivery_id s =
     (case get_delivery s event_delivery_id of
        None \<Rightarrow> (Returned, s)
      | Some delivery \<Rightarrow>
          if \<not> is_active (delivery_webhook delivery)
          then (Returned, snd (delivery_update delivery FAILED s))
          else
            (let webhook = delivery_webhook delivery;
                 data = payload_text (delivery_payload delivery);
                 domain = current_domain w;
                 (attempt, s1) = create_attempt delivery (Some (request_id self)) s
             in case send_webhook_using_scheme_method w (target_url webhook) domain
                       (secret_key webhook) (delivery_event_type delivery) data of
                  Inr response \<Rightarrow>
                    (let s2 = attempt_update attempt response s1 in
                     if status response = FAILED
                     then
                       (case retry self event_delivery_id
                               (retry_backoff * 2 ^ request_retries self) max_retries s2 of
                          (Retry, s3) \<Rightarrow> (Retried, s3)
                        | (MaxRetriesExceededError, s3) \<Rightarrow>
                            (let (delivery1, s4) = delivery_update delivery FAILED s3
                             in (Returned, clear_successful_delivery delivery1 s4)))
                     else
                       (let (delivery1, s3) = delivery_update delivery SUCCESS s2
                        in (Returned, clear_successful_delivery delivery1 s3)))
                | Inl e \<Rightarrow>
                    if isinstance e ValueError
                    then
                      (let response = (WebhookResponse_init (exc_str e))\<lparr>status := FAILED\<rparr>;
                           s2 = attempt_update attempt response s1;
                           (delivery1, s3) = delivery_update delivery FAILED s2
                       in (Returned, clear_successful_delivery delivery1 s3))
                    else (Raised e, s1)))"

subsection \<open>Delivery orchestrator, sync path\<close>

text \<open>
  The two handlers of the \<open>try\<close> block, applied to the \<open>response\<close> bound when the
  exception is raised: \<open>except RequestException\<close> marks it \<open>FAILED\<close> and copies the
  exception's response when that is true (the truth value of a \<open>Response\<close> is its
  \<open>ok\<close>); \<open>except JSONDecodeError\<close> marks it \<open>FAILED\<close>; any other exception is not
  handled.
\<close>

definition sync_except :: "WebhookResponse \<Rightarrow> py_exception \<Rightarrow> py_exception + WebhookResponse" where
  "sync_except response e =
     (if isinstance e RequestException
      then
        Inr (case exc_response e of
               None \<Rightarrow> response\<lparr>status := FAILED\<rparr>
             | Some r \<Rightarrow>
                 if ok r
                 then response
                        \<lparr>status := FAILED,
                         content := resp_text r,
                         response_headers := Some (headers r),
                         response_status_code := Some (status_code r)\<rparr>
                 else response\<lparr>status := FAILED\<rparr>)
      else if isinstance e JSONDecodeError
      then Inr (response\<lparr>status := FAILED\<rparr>)
      else Inl e)"

text \<open>
  The function returns the decoded response, or \<open>None\<close> (\<open>JNone\<close>), or raises.
  \<open>app_name\<close> only labels the trace. \<open>requests.post\<close> raises before \<open>response\<close> is
  assigned, \<open>json.loads\<close> after it.
\<close>

definition send_webhook_request_sync ::
  "world \<Rightarrow> string \<Rightarrow> EventDelivery \<Rightarrow> nat \<Rightarrow> store \<Rightarrow> (py_exception + json) \<times> store" where
  "send_webhook_request_sync w app_name delivery timeout s =
     (let event_payload = delivery_payload delivery;
          data = payload_text event_payload;
          webhook = delivery_webhook delivery;
          parts = urlparse w (target_url webhook);
          domain = current_domain w;
          message = data;
          signature = signature_for_payload w message (secret_key webhook)
      in if lower (scheme parts) \<notin> set (map scheme_value [HTTP, HTTPS])
         then (Inl (unknown_scheme_error w parts), snd (delivery_update delivery FAILED s))
         else
           (let (attempt, s1) = create_attempt delivery None s;
                response0 = WebhookResponse_init [];
                tried =
                  (case send_webhook_using_http w (target_url webhook) message domain
                          signature (delivery_event_type delivery) timeout of
                     Inr response \<Rightarrow>
                       (case json_loads w (content response) of
                          Inr response_data \<Rightarrow> Inr (response, response_data)
                        | Inl e \<Rightarrow>
                            (case sync_except response e of
                               Inr failed \<Rightarrow> Inr (failed, JNone)
                             | Inl e \<Rightarrow> Inl e))
                   | Inl e \<Rightarrow>
                       (case sync_except response0 e of
                          Inr failed \<Rightarrow> Inr (failed, JNone)
                        | Inl e \<Rightarrow> Inl e))
            in case tried of
                 Inl e \<Rightarrow> (Inl e, s1)
               | Inr (response, response_data) \<Rightarrow>
                   (let s2 = attempt_update attempt response s1;
                        (delivery1, s3) = delivery_update delivery (status response) s2;
                        s4 = clear_successful_delivery delivery1 s3
                    in (Inr (if status response = SUCCESS then response_data else JNone),
                        s4))))"

subsection \<open>Fan-out trigger\<close>

text \<open>
  The collaborators of the subscription path: the registry of subscribable events, the
  context of a requestor, the renderer of a subscription query (a dictionary or
  \<open>None\<close>) and \<open>json.dumps\<close>.
\<close>

record ('o, 'r, 'c) subscriptions =
  SUBSCRIBABLE_EVENTS :: "string list"
  initialize_context :: "'r \<Rightarrow> 'c"
  generate_payload_from_subscription ::
    "string \<Rightarrow> 'o \<Rightarrow> string option \<Rightarrow> 'c \<Rightarrow> string \<Rightarrow> (string \<times> json) list option"
  json_dumps :: "(string \<times> json) list \<Rightarrow> string"

text \<open>The truth value of an optional text and of an optional dictionary.\<close>

definition truthy :: "'a list option \<Rightarrow> bool" where
  "truthy v = (case v of None \<Rightarrow> False | Some xs \<Rightarrow> xs \<noteq> [])"

text \<open>
  The loop of \<open>create_deliveries_for_subscriptions\<close>: the webhooks for which a payload
  is rendered, each with its serialized payload; an empty rendering is skipped.
\<close>

fun subscription_payloads ::
  "('o, 'r, 'c) subscriptions \<Rightarrow> string \<Rightarrow> 'o \<Rightarrow> 'c \<Rightarrow> Webhook list \<Rightarrow> (Webhook \<times> string) list"
  where
  "subscription_payloads sw event_type subscribable_object ctx [] = []"
| "subscription_payloads sw event_type subscribable_object ctx (webhook # webhooks) =
     (let data = generate_payload_from_subscription sw event_type subscribable_object
                   (subscription_query webhook) ctx (webhook_app webhook);
          rest = subscription_payloads sw event_type subscribable_object ctx webhooks
      in if \<not> truthy data then rest
         else (webhook, json_dumps sw (case data of Some d \<Rightarrow> d | None \<Rightarrow> [])) # rest)"

text \<open>
  The payload objects are shared with the deliveries built in the loop, so each delivery
  is saved with the key that \<open>bulk_create\<close> gave its payload.
\<close>

definition create_deliveries_for_subscriptions ::
  "('o, 'r, 'c) subscriptions \<Rightarrow> string \<Rightarrow> 'o \<Rightarrow> Webhook list \<Rightarrow> 'r \<Rightarrow> store
    \<Rightarrow> EventDelivery list \<times> store" where
  "create_deliveries_for_subscriptions sw event_type subscribable_object webhooks requestor s =
     (if event_type \<notin> set (SUBSCRIBABLE_EVENTS sw) then ([], s)
      else
        (let ctx = initialize_context sw requestor;
             rendered = subscription_payloads sw event_type subscribable_object ctx webhooks;
             (event_payloads, s1) = bulk_create_payloads (map snd rendered) s;
             event_deliveries =
               map (\<lambda>(webhook, event_payload).
                      \<lparr>delivery_id = 0, delivery_status = PENDING,
                       delivery_event_type = event_type,
                       delivery_payload = event_payload, delivery_webhook = webhook\<rparr>)
                 (zip (map fst rendered) event_payloads)
         in bulk_create_deliveries event_deliveries s1))"

definition group_webhooks_by_subscription :: "Webhook list \<Rightarrow> Webhook list \<times> Webhook list" where
  "group_webhooks_by_subscription webhooks =
     (let subscription = filter (\<lambda>webhook. truthy (subscription_query webhook)) webhooks;
          regular = filter (\<lambda>webhook. \<not> truthy (subscription_query webhook)) webhooks
      in (regular, subscription))"

definition trigger_webhooks_async ::
  "('o, 'r, 'c) subscriptions \<Rightarrow> string \<Rightarrow> string \<Rightarrow> Webhook list \<Rightarrow> 'o \<Rightarrow> 'r \<Rightarrow> store
    \<Rightarrow> store" where
  "trigger_webhooks_async sw data event_type webhooks subscribable_object requestor s =
     (let (regular_webhooks, subscription_webhooks) = group_webhooks_by_subscription webhooks;
          (deliveries1, s1) =
            (if regular_webhooks \<noteq> []
             then (let (event_payload, s0) = EventPayload_create data s
                   in create_event_delivery_list_for_webhooks webhooks event_payload
                        event_type s0)
             else ([], s));
          (deliveries2, s2) =
            (if subscription_webhooks \<noteq> []
             then create_deliveries_for_subscriptions sw event_type subscribable_object
                    subscription_webhooks requestor s1
             else ([], s1))
      in foldl (\<lambda>st delivery. delay (delivery_id delivery) st) s2 (deliveries1 @ deliveries2))"

subsection \<open>Derived notions used in the statements\<close>

text \<open>
  The row that \<open>create_attempt\<close> followed by \<open>attempt_update\<close> leaves for a delivery,
  a task identifier and a result.
\<close>

definition filled_attempt ::
  "store \<Rightarrow> EventDelivery \<Rightarrow> string option \<Rightarrow> WebhookResponse \<Rightarrow> EventDeliveryAttempt" where
  "filled_attempt s delivery tid r =
     \<lparr>attempt_id = fresh_id (map attempt_id (attempt_rows s)),
      attempt_delivery = delivery_id delivery,
      task_id = tid,
      attempt_duration = Some (duration r),
      attempt_response = Some (content r),
      attempt_request_headers = request_headers r,
      attempt_response_headers = response_headers r,
      attempt_response_status_code = response_status_code r,
      attempt_status = Some (status r)\<rparr>"

text \<open>The attempts recorded for a delivery.\<close>

definition attempts_of :: "store \<Rightarrow> nat \<Rightarrow> EventDeliveryAttempt list" where
  "attempts_of s i = filter (\<lambda>a. attempt_delivery a = i) (attempt_rows s)"

text \<open>What the router answers for a delivery in a world, as the async task calls it.\<close>

definition dispatch :: "world \<Rightarrow> EventDelivery \<Rightarrow> py_exception + WebhookResponse" where
  "dispatch w delivery =
     send_webhook_using_scheme_method w (target_url (delivery_webhook delivery))
       (current_domain w) (secret_key (delivery_webhook delivery))
       (delivery_event_type delivery) (payload_text (delivery_payload delivery))"

text \<open>
  The router returns a \<open>FAILED\<close> result for the delivery: the endpoint's answer is not
  \<open>ok\<close>, or the adapter failed with an exception of a class listed for the scheme. A
  failure that leaves the router as an exception is not of this kind.
\<close>

definition router_returns_FAILED :: "world \<Rightarrow> EventDelivery \<Rightarrow> bool" where
  "router_returns_FAILED w delivery =
     (case dispatch w delivery of Inr r \<Rightarrow> status r = FAILED | Inl e \<Rightarrow> False)"

text \<open>
  The retry message that the run with \<open>n\<close> retries sends for a delivery.
\<close>

definition retry_message :: "nat \<Rightarrow> nat \<Rightarrow> task_message" where
  "retry_message i n =
     \<lparr>msg_delivery_id = i, msg_countdown = Some (retry_backoff * 2 ^ n), msg_retries = Suc n\<rparr>"

subsection \<open>Example worlds and stores\<close>

text \<open>
  \<open>urlparse\<close> on the URLs of the examples, and \<open>urlunparse\<close> and \<open>%r\<close> as they are on
  them (no parameters, query or fragment; no quote or escape in the text).
\<close>

definition example_urlparse :: "string \<Rightarrow> ParseResult" where
  "example_urlparse u =
     (if u = ''https://example.com/hook'' then
        \<lparr>scheme = ''https'', username = None, password = None,
         hostname = Some ''example.com'', path = ''/hook'', params = [], query = [],
         fragment = []\<rparr>
      else if u = ''awssqs://k:s@sqs.us-west-2.amazonaws.com/123/q.fifo'' then
        \<lparr>scheme = ''awssqs'', username = Some ''k'', password = Some ''s'',
         hostname = Some ''sqs.us-west-2.amazonaws.com'', path = ''/123/q.fifo'',
         params = [], query = [], fragment = []\<rparr>
      else if u = ''ftp://example.com/hook'' then
        \<lparr>scheme = ''ftp'', username = None, password = None,
         hostname = Some ''example.com'', path = ''/hook'', params = [], query = [],
         fragment = []\<rparr>
      else
        \<lparr>scheme = [], username = None, password = None, hostname = None, path = u,
         params = [], query = [], fragment = []\<rparr>)"

text \<open>
  The body \<open>{"ok": true}\<close> and its decoding; \<open>json.loads\<close> on the bodies of the
  examples.
\<close>

definition ok_true_body :: string where
  "ok_true_body = ''{'' @ [CHR 0x22] @ ''ok'' @ [CHR 0x22] @ '': true}''"

definition example_json_loads :: "string \<Rightarrow> py_exception + json" where
  "example_json_loads t =
     (if t = ok_true_body then Inr (JDict [(''ok'', JBool True)])
      else if t = ''{}'' then Inr (JDict [])
      else Inl \<lparr>exc_class = JSONDecodeError, exc_str = ''Expecting value'',
                exc_response = None\<rparr>)"

definition http_response :: "int \<Rightarrow> string \<Rightarrow> Response" where
  "http_response code body = \<lparr>resp_text = body, headers = [], status_code = code, elapsed = 1\<rparr>"

text \<open>
  A world whose HTTP endpoints answer every request with a code and a body, and whose
  queue accepts every message and acknowledges it with the region and the message group
  it was sent with.
\<close>

definition example_world :: "int \<Rightarrow> string \<Rightarrow> world" where
  "example_world code body =
     \<lparr>urlparse = example_urlparse,
      urlunparse = (\<lambda>(sch, netloc, p, prm, q, f). sch @ ''://'' @ netloc @ p),
      py_repr = (\<lambda>t. CHR 0x27 # t @ [CHR 0x27]),
      json_loads = example_json_loads,
      signature_for_payload = (\<lambda>m k. ''signature''),
      current_domain = ''shop.example.com'',
      WEBHOOK_TIMEOUT = 10,
      WEBHOOK_SYNC_TIMEOUT = 20,
      requests_post = (\<lambda>u m hs t. Inr (http_response code body)),
      boto3_client = (\<lambda>c. None),
      sqs_send_message =
        (\<lambda>c k. Inr (region_name c @ '' ''
                      @ (case MessageGroupId k of None \<Rightarrow> ''-'' | Some g \<Rightarrow> g), 1)),
      pubsub_publisher_client = None,
      pubsub_publish = (\<lambda>t m a. Inr (''published'', 1))\<rparr>"

text \<open>A world whose HTTP client raises an exception of a class.\<close>

definition raising_world :: "exc_class \<Rightarrow> world" where
  "raising_world c =
     (example_world 200 ok_true_body)
       \<lparr>requests_post :=
          (\<lambda>u m hs t. Inl \<lparr>exc_class = c, exc_str = ''boom'', exc_response = None\<rparr>)\<rparr>"

text \<open>
  A world whose queue cannot be reached: botocore raises a connection error, which is
  not a \<open>ClientError\<close>.
\<close>

definition unreachable_queue_world :: world where
  "unreachable_queue_world =
     (example_world 200 ok_true_body)
       \<lparr>sqs_send_message :=
          (\<lambda>c k. Inl \<lparr>exc_class = OtherException,
                         exc_str = ''Could not connect to the endpoint URL'',
                         exc_response = None\<rparr>)\<rparr>"

text \<open>
  A world whose HTTP endpoints answer 200 with a body of 2000 opening brackets, on which
  \<open>json.loads\<close> raises \<open>RecursionError\<close>.
\<close>

definition deep_body :: string where
  "deep_body = replicate 2000 (CHR ''['')"

definition deep_body_world :: world where
  "deep_body_world =
     (example_world 200 deep_body)
       \<lparr>json_loads :=
          (\<lambda>t. if t = deep_body
                then Inl \<lparr>exc_class = RecursionError,
                          exc_str = ''maximum recursion depth exceeded'',
                          exc_response = None\<rparr>
                else example_json_loads t)\<rparr>"

definition example_webhook :: "nat \<Rightarrow> string \<Rightarrow> bool \<Rightarrow> string option \<Rightarrow> Webhook" where
  "example_webhook i u active q =
     \<lparr>webhook_id = i, webhook_app = ''app'', target_url = u, secret_key = Some ''secret'',
      is_active = active, subscription_query = q\<rparr>"

definition example_delivery :: "EventDeliveryStatus \<Rightarrow> Webhook \<Rightarrow> EventDelivery" where
  "example_delivery st wh =
     \<lparr>delivery_id = 1, delivery_status = st, delivery_event_type = ''ORDER_CREATED'',
      delivery_payload = \<lparr>payload_id = 1, payload_text = ''{}''\<rparr>,
      delivery_webhook = wh\<rparr>"

definition example_store :: "EventDelivery \<Rightarrow> store" where
  "example_store d =
     \<lparr>payload_rows = [delivery_payload d], delivery_rows = [d], attempt_rows = [],
      task_queue = [], cleanup_eligible = []\<rparr>"

definition empty_store :: store where
  "empty_store =
     \<lparr>payload_rows = [], delivery_rows = [], attempt_rows = [], task_queue = [],
      cleanup_eligible = []\<rparr>"

definition example_request :: "nat \<Rightarrow> task_request" where
  "example_request n = \<lparr>request_id = ''task-1'', request_retries = n\<rparr>"

text \<open>
  A subscription world: \<open>ORDER_CREATED\<close> is subscribable and every query renders the
  dictionary \<open>{"ok": true}\<close>.
\<close>

definition example_subscriptions :: "(unit, unit, unit) subscriptions" where
  "example_subscriptions =
     \<lparr>SUBSCRIBABLE_EVENTS = [''ORDER_CREATED''],
      initialize_context = (\<lambda>r. ()),
      generate_payload_from_subscription =
        (\<lambda>ev obj q ctx a. Some [(''ok'', JBool True)]),
      json_dumps = (\<lambda>d. ok_true_body)\<rparr>"

subsection \<open>The job queue\<close>

lemma async_Retried_retries:
  "send_webhook_request_async w self i s = (Retried, s1) \<Longrightarrow> request_retries self < max_retries"
  by (auto simp: send_webhook_request_async_def retry_def Let_def
      split: option.splits if_splits sum.splits prod.splits retry_signal.splits)

text \<open>
  The job queue running a delivery to its end: the first run carries \<open>n\<close> retries, and
  every \<open>Retry\<close> is followed by the run of the message it sent. \<open>ws n\<close> is the world
  the run with \<open>n\<close> retries meets.
\<close>

function run_delivery :: "(nat \<Rightarrow> world) \<Rightarrow> string \<Rightarrow> nat \<Rightarrow> nat \<Rightarrow> store \<Rightarrow> store" where
  "run_delivery ws tid event_delivery_id n s =
     (case send_webhook_request_async (ws n) \<lparr>request_id = tid, request_retries = n\<rparr>
             event_delivery_id s of
        (Retried, s1) \<Rightarrow> run_delivery ws tid event_delivery_id (Suc n) s1
      | (Returned, s1) \<Rightarrow> s1
      | (Raised e, s1) \<Rightarrow> s1)"
  by pat_completeness auto
termination run_delivery
proof (relation "measure (\<lambda>(ws, tid, i, n, s). Suc max_retries - n)")
  show "wf (measure (\<lambda>(ws, tid, i, n, s). Suc max_retries - n))" by simp
next
  fix ws :: "nat \<Rightarrow> world" and tid i n s x1 s1
  assume "(x1, s1) =
      send_webhook_request_async (ws n) \<lparr>request_id = tid, request_retries = n\<rparr> i s"
    and "x1 = Retried"
  then have "n < max_retries"
    using async_Retried_retries[of "ws n" "\<lparr>request_id = tid, request_retries = n\<rparr>" i s s1]
    by simp
  then show "((ws, tid, i, Suc n, s1), (ws, tid, i, n, s))
      \<in> measure (\<lambda>(ws, tid, i, n, s). Suc max_retries - n)"
    by simp
qed

declare run_delivery.simps [simp del]

section \<open>Properties\<close>

subsection \<open>The store\<close>

lemma foldr_max_ge: "x \<in> set ids \<Longrightarrow> x \<le> foldr max ids (0::nat)"
  by (induction ids) auto

lemma fresh_id_gt: "x \<in> set ids \<Longrightarrow> x < fresh_id ids"
  by (simp add: fresh_id_def foldr_max_ge less_Suc_eq_le)

lemma fresh_attempt_id_unused:
  "a \<in> set rows \<Longrightarrow> attempt_id a \<noteq> fresh_id (map attempt_id rows)"
  using fresh_id_gt[of "attempt_id a" "map attempt_id rows"] by auto

lemma attempt_update_create_attempt:
  assumes "create_attempt delivery tid s = (attempt, s1)"
  shows "attempt_update attempt r s1 =
     s\<lparr>attempt_rows := attempt_rows s @ [filled_attempt s delivery tid r]\<rparr>"
proof -
  have "map (\<lambda>a. if attempt_id a = fresh_id (map attempt_id (attempt_rows s))
                   then a\<lparr>attempt_duration := Some (duration r),
                          attempt_response := Some (content r),
                          attempt_request_headers := request_headers r,
                          attempt_response_headers := response_headers r,
                          attempt_response_status_code := response_status_code r,
                          attempt_status := Some (status r)\<rparr>
                   else a) (attempt_rows s) = attempt_rows s"
    by (rule map_idI) (simp add: fresh_attempt_id_unused)
  with assms show ?thesis
    by (auto simp: create_attempt_def attempt_update_def filled_attempt_def Let_def)
qed

lemma find_delivery_update:
  "find (\<lambda>d. delivery_id d = i) rows = Some d \<Longrightarrow>
   find (\<lambda>d. delivery_id d = i)
     (map (\<lambda>x. if delivery_id x = i then x\<lparr>delivery_status := st\<rparr> else x) rows)
   = Some (d\<lparr>delivery_status := st\<rparr>)"
  by (induction rows) (auto split: if_splits)

lemma get_delivery_id: "get_delivery s i = Some d \<Longrightarrow> delivery_id d = i"
  by (auto simp: get_delivery_def find_Some_iff)

lemma get_delivery_delivery_update:
  "get_delivery s (delivery_id delivery) = Some row \<Longrightarrow>
   get_delivery (snd (delivery_update delivery st s)) (delivery_id delivery)
     = Some (row\<lparr>delivery_status := st\<rparr>)"
  by (simp add: get_delivery_def delivery_update_def find_delivery_update)

lemma get_delivery_attempt_rows [simp]:
  "get_delivery (s\<lparr>attempt_rows := rows\<rparr>) i = get_delivery s i"
  by (simp add: get_delivery_def)

lemma get_delivery_task_queue [simp]:
  "get_delivery (s\<lparr>task_queue := q\<rparr>) i = get_delivery s i"
  by (simp add: get_delivery_def)

lemma get_delivery_clear [simp]:
  "get_delivery (clear_successful_delivery d s) i = get_delivery s i"
  by (simp add: get_delivery_def clear_successful_delivery_def)

lemma delivery_update_other_tables [simp]:
  "attempt_rows (snd (delivery_update d st s)) = attempt_rows s"
  "task_queue (snd (delivery_update d st s)) = task_queue s"
  "payload_rows (snd (delivery_update d st s)) = payload_rows s"
  by (simp_all add: delivery_update_def)

lemma clear_other_tables [simp]:
  "attempt_rows (clear_successful_delivery d s) = attempt_rows s"
  "task_queue (clear_successful_delivery d s) = task_queue s"
  "delivery_rows (clear_successful_delivery d s) = delivery_rows s"
  by (simp_all add: clear_successful_delivery_def)

lemma get_delivery_create_attempt [simp]:
  "get_delivery (snd (create_attempt d tid s)) i = get_delivery s i"
  by (simp add: create_attempt_def get_delivery_def Let_def)

subsection \<open>Disabled endpoint\<close>

text \<open>
  C8. An async run on a delivery whose webhook is inactive returns at once: the delivery
  is marked \<open>FAILED\<close>, no attempt row is created and no retry is sent to the queue.
\<close>

theorem inactive_webhook_fails_without_attempt:
  assumes "get_delivery s event_delivery_id = Some delivery"
    and "\<not> is_active (delivery_webhook delivery)"
  shows "\<exists>s1. send_webhook_request_async w self event_delivery_id s = (Returned, s1)
     \<and> get_delivery s1 event_delivery_id = Some (delivery\<lparr>delivery_status := FAILED\<rparr>)
     \<and> attempt_rows s1 = attempt_rows s
     \<and> task_queue s1 = task_queue s"
proof -
  have i: "delivery_id delivery = event_delivery_id"
    using assms(1) by (rule get_delivery_id)
  have "get_delivery (snd (delivery_update delivery FAILED s)) event_delivery_id
      = Some (delivery\<lparr>delivery_status := FAILED\<rparr>)"
    using get_delivery_delivery_update[of s delivery delivery FAILED] assms(1) i by simp
  then show ?thesis
    using assms by (simp add: send_webhook_request_async_def)
qed

theorem inactive_webhook_fails_without_attempt_witness:
  "send_webhook_request_async (example_world 200 ok_true_body) (example_request 0) 1
     (example_store
        (example_delivery PENDING (example_webhook 1 ''https://example.com/hook'' False None)))
   = (Returned,
      example_store
        (example_delivery FAILED (example_webhook 1 ''https://example.com/hook'' False None)))"
  using inactive_webhook_fails_without_attempt
    [of "example_store
           (example_delivery PENDING (example_webhook 1 ''https://example.com/hook'' False None))"
        1
        "example_delivery PENDING (example_webhook 1 ''https://example.com/hook'' False None)"
        "example_world 200 ok_true_body" "example_request 0"]
  by (simp add: get_delivery_def example_store_def example_delivery_def example_webhook_def
      send_webhook_request_async_def delivery_update_def)

subsection \<open>Unsupported schemes\<close>





subsection \<open>Sync path\<close>

text \<open>
  C10. A sync delivery whose target scheme, lower-cased, is neither \<open>http\<close> nor
  \<open>https\<close> raises the \<open>ValueError\<close> "Unknown webhook scheme"; the row of the delivery
  is marked \<open>FAILED\<close> on the way and no attempt row is created.
\<close>

theorem sync_unsupported_scheme_marks_failed_and_raises:
  assumes "lower (scheme (urlparse w (target_url (delivery_webhook delivery))))
       \<notin> set [''http'', ''https'']"
    and "get_delivery s (delivery_id delivery) = Some row"
  shows "\<exists>s1. send_webhook_request_sync w app_name delivery timeout s
         = (Inl (unknown_scheme_error w (urlparse w (target_url (delivery_webhook delivery)))),
            s1)
     \<and> get_delivery s1 (delivery_id delivery) = Some (row\<lparr>delivery_status := FAILED\<rparr>)
     \<and> attempt_rows s1 = attempt_rows s"
  using assms get_delivery_delivery_update[of s delivery row FAILED]
  by (simp add: send_webhook_request_sync_def Let_def)

theorem sync_unsupported_scheme_marks_failed_and_raises_witness:
  "send_webhook_request_sync (example_world 200 ok_true_body) ''app''
     (example_delivery PENDING
        (example_webhook 1 ''awssqs://k:s@sqs.us-west-2.amazonaws.com/123/q.fifo'' True None))
     20
     (example_store (example_delivery PENDING
        (example_webhook 1 ''awssqs://k:s@sqs.us-west-2.amazonaws.com/123/q.fifo'' True None)))
   = (Inl \<lparr>exc_class = ValueError,
           exc_str = ''Unknown webhook scheme: '' @ [CHR 0x27] @ ''awssqs'' @ [CHR 0x27],
           exc_response = None\<rparr>,
      example_store (example_delivery FAILED
        (example_webhook 1 ''awssqs://k:s@sqs.us-west-2.amazonaws.com/123/q.fifo'' True None)))"
proof -
  let ?w = "example_world 200 ok_true_body"
  let ?u = "''awssqs://k:s@sqs.us-west-2.amazonaws.com/123/q.fifo''"
  let ?d = "example_delivery PENDING (example_webhook 1 ?u True None)"
  have h1: "lower (scheme (urlparse ?w (target_url (delivery_webhook ?d))))
      \<notin> set [''http'', ''https'']"
    by (simp add: example_world_def example_urlparse_def lower_def lower_char_def
        example_delivery_def example_webhook_def)
  have h2: "get_delivery (example_store ?d) (delivery_id ?d) = Some ?d"
    by (simp add: get_delivery_def example_store_def example_delivery_def)
  from sync_unsupported_scheme_marks_failed_and_raises[OF h1 h2, of "''app''" 20]
  obtain s1 where
    run: "send_webhook_request_sync ?w ''app'' ?d 20 (example_store ?d)
        = (Inl (unknown_scheme_error ?w (urlparse ?w (target_url (delivery_webhook ?d)))), s1)"
    by blast
  have s1: "s1 = example_store (example_delivery FAILED (example_webhook 1 ?u True None))"
    using run h1
    by (simp add: send_webhook_request_sync_def Let_def delivery_update_def example_store_def
        example_delivery_def example_webhook_def)
  have e: "unknown_scheme_error ?w (urlparse ?w (target_url (delivery_webhook ?d)))
      = \<lparr>exc_class = ValueError,
         exc_str = ''Unknown webhook scheme: '' @ [CHR 0x27] @ ''awssqs'' @ [CHR 0x27],
         exc_response = None\<rparr>"
    by (simp add: unknown_scheme_error_def example_world_def example_urlparse_def
        example_delivery_def example_webhook_def)
  show ?thesis using run s1 e by simp
qed

lemma sync_except_caught:
  assumes "isinstance e RequestException \<or> isinstance e JSONDecodeError"
  shows "\<exists>failed. sync_except response e = Inr failed \<and> status failed = FAILED"
  using assms by (auto simp: sync_except_def split: option.splits)

lemma sync_except_uncaught:
  assumes "\<not> (isinstance e RequestException \<or> isinstance e JSONDecodeError)"
  shows "sync_except response e = Inl e"
  using assms by (simp add: sync_except_def)

text \<open>
  C7, as the code has it. A sync delivery over \<open>http\<close> or \<open>https\<close>. When the request is
  answered and \<open>json.loads\<close> returns a value, the delivery is marked \<open>SUCCESS\<close> and
  the caller receives the value unless the status code is a client or server error (400
  to 599); for those codes the delivery is marked \<open>FAILED\<close> and the caller receives
  \<open>None\<close>. When \<open>requests.post\<close> or \<open>json.loads\<close> raises a \<open>RequestException\<close>
  or a \<open>JSONDecodeError\<close>, the delivery is marked \<open>FAILED\<close> and the caller receives
  \<open>None\<close>. Any other exception of the two leaves the function, and the status of the
  delivery is not written.
\<close>

theorem sync_http_outcome:
  assumes http: "lower (scheme (urlparse w (target_url (delivery_webhook delivery))))
       \<in> set [''http'', ''https'']"
    and row: "get_delivery s (delivery_id delivery) = Some row"
  shows "\<exists>out st s1.
       send_webhook_request_sync w app_name delivery timeout s = (out, s1)
     \<and> get_delivery s1 (delivery_id delivery) = Some (row\<lparr>delivery_status := st\<rparr>)
     \<and> (case requests_post w (target_url (delivery_webhook delivery))
               (payload_text (delivery_payload delivery))
               (http_headers (delivery_event_type delivery) (current_domain w)
                  (signature_for_payload w (payload_text (delivery_payload delivery))
                     (secret_key (delivery_webhook delivery))))
               timeout of
          Inr r \<Rightarrow>
            (case json_loads w (resp_text r) of
               Inr v \<Rightarrow>
                 (if 400 \<le> status_code r \<and> status_code r < 600
                  then out = Inr JNone \<and> st = FAILED
                  else out = Inr v \<and> st = SUCCESS)
             | Inl e \<Rightarrow>
                 (if isinstance e RequestException \<or> isinstance e JSONDecodeError
                  then out = Inr JNone \<and> st = FAILED
                  else out = Inl e \<and> st = delivery_status row))
        | Inl e \<Rightarrow>
            (if isinstance e RequestException \<or> isinstance e JSONDecodeError
             then out = Inr JNone \<and> st = FAILED
             else out = Inl e \<and> st = delivery_status row))"
proof -
  let ?post = "requests_post w (target_url (delivery_webhook delivery))
               (payload_text (delivery_payload delivery))
               (http_headers (delivery_event_type delivery) (current_domain w)
                  (signature_for_payload w (payload_text (delivery_payload delivery))
                     (secret_key (delivery_webhook delivery))))
               timeout"
  obtain attempt s0 where ca: "create_attempt delivery None s = (attempt, s0)"
    by (cases "create_attempt delivery None s")
  have s0: "s0 = snd (create_attempt delivery None s)"
    using ca by simp
  have au: "\<And>x. attempt_update attempt x s0 =
      s\<lparr>attempt_rows := attempt_rows s @ [filled_attempt s delivery None x]\<rparr>"
    using ca by (rule attempt_update_create_attempt)
  have gd: "\<And>x st. get_delivery (snd (delivery_update delivery st
        (s\<lparr>attempt_rows := attempt_rows s @ [filled_attempt s delivery None x]\<rparr>)))
        (delivery_id delivery) = Some (row\<lparr>delivery_status := st\<rparr>)"
    using row by (simp add: get_delivery_delivery_update)
  have kept: "get_delivery s0 (delivery_id delivery)
      = Some (row\<lparr>delivery_status := delivery_status row\<rparr>)"
    using row s0 by simp
  have fin: "\<And>x. status x = FAILED \<Longrightarrow>
      (let s2 = attempt_update attempt x s0;
           (delivery1, s3) = delivery_update delivery (status x) s2;
           s4 = clear_successful_delivery delivery1 s3
       in (Inr (if status x = SUCCESS then v else JNone) :: py_exception + json, s4))
      = (Inr JNone,
         snd (delivery_update delivery FAILED
           (s\<lparr>attempt_rows := attempt_rows s @ [filled_attempt s delivery None x]\<rparr>)))" for v
    by (simp add: au Let_def case_prod_beta clear_successful_delivery_def delivery_update_def)
  have c: "(lower (scheme (urlparse w (target_url (delivery_webhook delivery))))
      \<notin> set (map scheme_value [HTTP, HTTPS])) = False"
    using http by simp
  note unf = send_webhook_request_sync_def[of w app_name delivery timeout s,
      unfolded Let_def c if_False]
  show ?thesis
  proof (cases ?post)
    case (Inl e)
    then have adapter: "send_webhook_using_http w (target_url (delivery_webhook delivery))
        (payload_text (delivery_payload delivery)) (current_domain w)
        (signature_for_payload w (payload_text (delivery_payload delivery))
           (secret_key (delivery_webhook delivery)))
        (delivery_event_type delivery) timeout = Inl e"
      by (simp add: send_webhook_using_http_def Let_def)
    show ?thesis
    proof (cases "isinstance e RequestException \<or> isinstance e JSONDecodeError")
      case True
      then obtain failed where x: "sync_except (WebhookResponse_init []) e = Inr failed"
        and f: "status failed = FAILED"
        using sync_except_caught by blast
      have "send_webhook_request_sync w app_name delivery timeout s
          = (Inr JNone,
             snd (delivery_update delivery FAILED
               (s\<lparr>attempt_rows := attempt_rows s @
                    [filled_attempt s delivery None failed]\<rparr>)))"
        using adapter ca x fin[OF f, of JNone] f
        by (simp add: unf Let_def)
      then show ?thesis
        using Inl True gd by simp
    next
      case False
      then have x: "sync_except (WebhookResponse_init []) e = Inl e"
        by (rule sync_except_uncaught)
      have "send_webhook_request_sync w app_name delivery timeout s = (Inl e, s0)"
        using adapter ca x
        by (simp add: unf Let_def)
      then show ?thesis
        using Inl False kept by simp
    qed
  next
    case (Inr r)
    let ?resp = "\<lparr>content = resp_text r,
               request_headers = Some (http_headers (delivery_event_type delivery)
                 (current_domain w)
                 (signature_for_payload w (payload_text (delivery_payload delivery))
                    (secret_key (delivery_webhook delivery)))),
               response_headers = Some (headers r),
               response_status_code = Some (status_code r),
               status = (if ok r then SUCCESS else FAILED),
               duration = elapsed r\<rparr>"
    have adapter: "send_webhook_using_http w (target_url (delivery_webhook delivery))
        (payload_text (delivery_payload delivery)) (current_domain w)
        (signature_for_payload w (payload_text (delivery_payload delivery))
           (secret_key (delivery_webhook delivery)))
        (delivery_event_type delivery) timeout = Inr ?resp"
      using Inr by (simp add: send_webhook_using_http_def Let_def)
    have c: "content ?resp = resp_text r"
      by simp
    show ?thesis
    proof (cases "json_loads w (resp_text r)")
      case v: (Inr v)
      have "send_webhook_request_sync w app_name delivery timeout s
          = (Inr (if ok r then v else JNone),
             clear_successful_delivery
               (delivery\<lparr>delivery_status := (if ok r then SUCCESS else FAILED)\<rparr>)
               (snd (delivery_update delivery (if ok r then SUCCESS else FAILED)
                  (s\<lparr>attempt_rows := attempt_rows s @
                       [filled_attempt s delivery None ?resp]\<rparr>))))"
        using adapter ca v
        by (simp add: unf Let_def au case_prod_beta
            delivery_update_def split del: if_split cong: if_cong)
          (cases "ok r"; simp)
      then show ?thesis
        using Inr v gd by (cases "ok r") (simp_all add: ok_def)
    next
      case e: (Inl e)
      show ?thesis
      proof (cases "isinstance e RequestException \<or> isinstance e JSONDecodeError")
        case True
        then obtain failed where x: "sync_except ?resp e = Inr failed"
          and f: "status failed = FAILED"
          using sync_except_caught by blast
        have "send_webhook_request_sync w app_name delivery timeout s
            = (Inr JNone,
               snd (delivery_update delivery FAILED
                 (s\<lparr>attempt_rows := attempt_rows s @
                      [filled_attempt s delivery None failed]\<rparr>)))"
          using adapter ca e x fin[OF f, of JNone] f
          by (simp add: unf Let_def split del: if_split cong: if_cong)
        then show ?thesis
          using Inr e True gd by simp
      next
        case False
        then have x: "sync_except ?resp e = Inl e"
          by (rule sync_except_uncaught)
        have "send_webhook_request_sync w app_name delivery timeout s = (Inl e, s0)"
          using adapter ca e x
          by (simp add: unf Let_def split del: if_split cong: if_cong)
        then show ?thesis
          using Inr e False kept by simp
      qed
    qed
  qed
qed

theorem sync_http_outcome_witness:
  "(\<exists>s1. send_webhook_request_sync (example_world 200 ok_true_body) ''app''
        (example_delivery PENDING (example_webhook 1 ''https://example.com/hook'' True None))
        20
        (example_store (example_delivery PENDING
           (example_webhook 1 ''https://example.com/hook'' True None)))
      = (Inr (JDict [(''ok'', JBool True)]), s1)
    \<and> get_delivery s1 1
      = Some (example_delivery SUCCESS
          (example_webhook 1 ''https://example.com/hook'' True None)))
   \<and> (\<exists>s1. send_webhook_request_sync (example_world 500 ok_true_body) ''app''
        (example_delivery PENDING (example_webhook 1 ''https://example.com/hook'' True None))
        20
        (example_store (example_delivery PENDING
           (example_webhook 1 ''https://example.com/hook'' True None)))
      = (Inr JNone, s1)
    \<and> get_delivery s1 1
      = Some (example_delivery FAILED
          (example_webhook 1 ''https://example.com/hook'' True None)))
   \<and> (\<exists>s1. send_webhook_request_sync (raising_world RequestException) ''app''
        (example_delivery PENDING (example_webhook 1 ''https://example.com/hook'' True None))
        20
        (example_store (example_delivery PENDING
           (example_webhook 1 ''https://example.com/hook'' True None)))
      = (Inr JNone, s1)
    \<and> get_delivery s1 1
      = Some (example_delivery FAILED
          (example_webhook 1 ''https://example.com/hook'' True None)))"
proof -
  let ?u = "''https://example.com/hook''"
  let ?d = "example_delivery PENDING (example_webhook 1 ?u True None)"
  have row: "get_delivery (example_store ?d) (delivery_id ?d) = Some ?d"
    by (simp add: get_delivery_def example_store_def example_delivery_def)
  have http: "\<And>c. lower (scheme (urlparse (example_world c ok_true_body)
        (target_url (delivery_webhook ?d)))) \<in> set [''http'', ''https'']"
    by (simp add: example_world_def example_urlparse_def lower_def lower_char_def
        example_delivery_def example_webhook_def)
  have http_r: "lower (scheme (urlparse (raising_world RequestException)
        (target_url (delivery_webhook ?d)))) \<in> set [''http'', ''https'']"
    by (simp add: raising_world_def example_world_def example_urlparse_def lower_def
        lower_char_def example_delivery_def example_webhook_def)
  have post: "\<And>c. requests_post (example_world c ok_true_body) (target_url (delivery_webhook ?d))
        (payload_text (delivery_payload ?d))
        (http_headers (delivery_event_type ?d) (current_domain (example_world c ok_true_body))
           (signature_for_payload (example_world c ok_true_body)
              (payload_text (delivery_payload ?d)) (secret_key (delivery_webhook ?d))))
        20 = Inr (http_response c ok_true_body)"
    by (simp add: example_world_def)
  have post_r: "requests_post (raising_world RequestException)
        (target_url (delivery_webhook ?d)) (payload_text (delivery_payload ?d))
        (http_headers (delivery_event_type ?d) (current_domain (raising_world RequestException))
           (signature_for_payload (raising_world RequestException)
              (payload_text (delivery_payload ?d)) (secret_key (delivery_webhook ?d))))
        20 = Inl \<lparr>exc_class = RequestException, exc_str = ''boom'', exc_response = None\<rparr>"
    by (simp add: raising_world_def)
  have j: "\<And>c. json_loads (example_world c ok_true_body) (resp_text (http_response c ok_true_body))
      = Inr (JDict [(''ok'', JBool True)])"
    by (simp add: example_world_def http_response_def example_json_loads_def)
  have code: "status_code (http_response c ok_true_body) = c" for c
    by (simp add: http_response_def)
  have inst: "isinstance \<lparr>exc_class = RequestException, exc_str = ''boom'',
      exc_response = None\<rparr> RequestException"
    by (simp add: isinstance_def)
  have a: "\<exists>s1. send_webhook_request_sync (example_world 200 ok_true_body) ''app'' ?d 20
        (example_store ?d) = (Inr (JDict [(''ok'', JBool True)]), s1)
      \<and> get_delivery s1 1 = Some (example_delivery SUCCESS (example_webhook 1 ?u True None))"
    using sync_http_outcome[OF http row, of 200 "''app''" 20] post[of 200] j[of 200] code[of 200]
    by (auto simp: example_delivery_def)
  have b: "\<exists>s1. send_webhook_request_sync (example_world 500 ok_true_body) ''app'' ?d 20
        (example_store ?d) = (Inr JNone, s1)
      \<and> get_delivery s1 1 = Some (example_delivery FAILED (example_webhook 1 ?u True None))"
    using sync_http_outcome[OF http row, of 500 "''app''" 20] post[of 500] j[of 500] code[of 500]
    by (auto simp: example_delivery_def)
  have c: "\<exists>s1. send_webhook_request_sync (raising_world RequestException) ''app'' ?d 20
        (example_store ?d) = (Inr JNone, s1)
      \<and> get_delivery s1 1 = Some (example_delivery FAILED (example_webhook 1 ?u True None))"
    using sync_http_outcome[OF http_r row, of "''app''" 20] post_r inst
    by (auto simp: example_delivery_def)
  show ?thesis using a b c by blast
qed

text \<open>
  The claim as stated fails twice. An endpoint that answers 200 with a body of 2000
  opening brackets: the body does not parse, \<open>json.loads\<close> raises \<open>RecursionError\<close>,
  neither handler catches it, the function raises and the delivery stays \<open>PENDING\<close>
  instead of becoming \<open>FAILED\<close>. An endpoint that answers 300, which is not a success
  code, with a JSON body: the delivery is marked \<open>SUCCESS\<close> and the caller receives the
  decoded value.
\<close>

theorem sync_unparsable_body_raises_and_300_succeeds:
  "fst (send_webhook_request_sync deep_body_world ''app''
       (example_delivery PENDING (example_webhook 1 ''https://example.com/hook'' True None))
       20
       (example_store (example_delivery PENDING
          (example_webhook 1 ''https://example.com/hook'' True None))))
     = Inl \<lparr>exc_class = RecursionError, exc_str = ''maximum recursion depth exceeded'',
            exc_response = None\<rparr>
   \<and> map delivery_status
       (delivery_rows (snd (send_webhook_request_sync deep_body_world ''app''
          (example_delivery PENDING (example_webhook 1 ''https://example.com/hook'' True None))
          20
          (example_store (example_delivery PENDING
             (example_webhook 1 ''https://example.com/hook'' True None))))))
     = [PENDING]
   \<and> fst (send_webhook_request_sync (example_world 300 ok_true_body) ''app''
       (example_delivery PENDING (example_webhook 1 ''https://example.com/hook'' True None))
       20
       (example_store (example_delivery PENDING
          (example_webhook 1 ''https://example.com/hook'' True None))))
     = Inr (JDict [(''ok'', JBool True)])
   \<and> map delivery_status
       (delivery_rows (snd (send_webhook_request_sync (example_world 300 ok_true_body) ''app''
          (example_delivery PENDING (example_webhook 1 ''https://example.com/hook'' True None))
          20
          (example_store (example_delivery PENDING
             (example_webhook 1 ''https://example.com/hook'' True None))))))
     = [SUCCESS]
   \<and> \<not> (200 \<le> (300::int) \<and> (300::int) < 300)"
proof -
  let ?d = "example_delivery PENDING (example_webhook 1 ''https://example.com/hook'' True None)"
  have lw: "lower ''https'' = ''https''"
    by (simp add: lower_def lower_char_def)
  have deep: "send_webhook_request_sync deep_body_world ''app'' ?d 20 (example_store ?d)
      = (Inl \<lparr>exc_class = RecursionError, exc_str = ''maximum recursion depth exceeded'',
               exc_response = None\<rparr>,
         snd (create_attempt ?d None (example_store ?d)))"
    by (simp add: send_webhook_request_sync_def Let_def deep_body_world_def example_world_def
        example_urlparse_def example_delivery_def example_webhook_def lw
        send_webhook_using_http_def http_response_def sync_except_def isinstance_def
        case_prod_beta)
  have rows: "delivery_rows (snd (create_attempt ?d None (example_store ?d))) = [?d]"
    by (simp add: create_attempt_def Let_def example_store_def)
  have three: "fst (send_webhook_request_sync (example_world 300 ok_true_body) ''app'' ?d 20
        (example_store ?d)) = Inr (JDict [(''ok'', JBool True)])
      \<and> map delivery_status (delivery_rows
        (snd (send_webhook_request_sync (example_world 300 ok_true_body) ''app'' ?d 20
          (example_store ?d)))) = [SUCCESS]"
    by (simp add: send_webhook_request_sync_def Let_def example_world_def
        example_urlparse_def example_delivery_def example_webhook_def lw
        send_webhook_using_http_def http_response_def ok_def example_json_loads_def
        case_prod_beta delivery_update_def create_attempt_def attempt_update_def
        clear_successful_delivery_def example_store_def)
  have ds: "delivery_status ?d = PENDING"
    by (simp add: example_delivery_def)
  have a1: "fst (send_webhook_request_sync deep_body_world ''app'' ?d 20 (example_store ?d))
      = Inl \<lparr>exc_class = RecursionError, exc_str = ''maximum recursion depth exceeded'',
             exc_response = None\<rparr>"
    by (simp only: deep fst_conv)
  have a2: "map delivery_status (delivery_rows
      (snd (send_webhook_request_sync deep_body_world ''app'' ?d 20 (example_store ?d))))
      = [PENDING]"
    by (simp only: deep snd_conv rows list.map ds)
  show ?thesis
    using a1 a2 three by simp
qed

subsection \<open>HTTP adapter\<close>

text \<open>
  C3, as the code has it. When \<open>requests.post\<close> returns a response, the result of the
  HTTP adapter is \<open>SUCCESS\<close> exactly when the response is \<open>ok\<close>, that is when its
  status code is not a client or server error (400 to 599); it is \<open>FAILED\<close> exactly
  for those codes. Every 2xx response is a \<open>SUCCESS\<close>, and in every case the content is
  the response body.
\<close>

theorem send_webhook_using_http_success_iff_ok:
  assumes "requests_post w url message (http_headers event_type domain signature) timeout
       = Inr r"
  shows "\<exists>res. send_webhook_using_http w url message domain signature event_type timeout
         = Inr res
     \<and> (status res = SUCCESS) = (\<not> (400 \<le> status_code r \<and> status_code r < 600))
     \<and> (status res = FAILED) = (400 \<le> status_code r \<and> status_code r < 600)
     \<and> (200 \<le> status_code r \<and> status_code r < 300 \<longrightarrow> status res = SUCCESS)
     \<and> content res = resp_text r
     \<and> response_status_code res = Some (status_code r)"
  using assms by (auto simp: send_webhook_using_http_def Let_def ok_def)

theorem send_webhook_using_http_success_iff_ok_witness:
  "(\<exists>res. send_webhook_using_http (example_world 500 ''oops'') ''https://example.com/hook''
        ''{}'' ''shop.example.com'' ''signature'' ''ORDER_CREATED'' 10 = Inr res
      \<and> status res = FAILED \<and> content res = ''oops'')
   \<and> (\<exists>res. send_webhook_using_http (example_world 204 []) ''https://example.com/hook''
        ''{}'' ''shop.example.com'' ''signature'' ''ORDER_CREATED'' 10 = Inr res
      \<and> status res = SUCCESS \<and> content res = [])"
proof -
  have p: "\<And>c b. requests_post (example_world c b) ''https://example.com/hook'' ''{}''
      (http_headers ''ORDER_CREATED'' ''shop.example.com'' ''signature'') 10
      = Inr (http_response c b)"
    by (simp add: example_world_def)
  show ?thesis
    using send_webhook_using_http_success_iff_ok[OF p, of 500 "''oops''"]
      send_webhook_using_http_success_iff_ok[OF p, of 204 "[]"]
    by (auto simp: http_response_def)
qed

text \<open>
  The claim as stated fails: a response with the status code 304 is not of the 2xx class,
  and the adapter reports \<open>SUCCESS\<close> for it.
\<close>

theorem send_webhook_using_http_304_is_success:
  "send_webhook_using_http (example_world 304 []) ''https://example.com/hook'' ''{}''
     ''shop.example.com'' ''signature'' ''ORDER_CREATED'' 10
   = Inr \<lparr>content = [],
          request_headers =
            Some (http_headers ''ORDER_CREATED'' ''shop.example.com'' ''signature''),
          response_headers = Some [],
          response_status_code = Some 304,
          status = SUCCESS,
          duration = 1\<rparr>
   \<and> \<not> (200 \<le> (304::int) \<and> (304::int) < 300)"
  by (simp add: send_webhook_using_http_def example_world_def http_response_def ok_def)

subsection \<open>Dispatch router\<close>

lemma scheme_matrix_get_known:
  "scheme_matrix_get ''http''
     = Some ((\<lambda>w u m d sg ev. send_webhook_using_http w u m d sg ev (WEBHOOK_TIMEOUT w)),
             [RequestException])"
  "scheme_matrix_get ''https''
     = Some ((\<lambda>w u m d sg ev. send_webhook_using_http w u m d sg ev (WEBHOOK_TIMEOUT w)),
             [RequestException])"
  "scheme_matrix_get ''awssqs'' = Some (send_webhook_using_aws_sqs, [ClientError])"
  "scheme_matrix_get ''gcpubsub''
     = Some (send_webhook_using_google_cloud_pubsub, [MessageTooLargeError, RuntimeError])"
  by (simp_all add: scheme_matrix_get_def scheme_matrix_def)

lemma scheme_matrix_get_entry:
  assumes "(k, entry) \<in> set scheme_matrix"
  shows "scheme_matrix_get (scheme_value k) = Some entry"
proof -
  have d: "distinct (map fst (map (\<lambda>(k, v). (scheme_value k, v)) scheme_matrix))"
    by (simp add: scheme_matrix_def)
  have "(scheme_value k, entry) \<in> set (map (\<lambda>(k, v). (scheme_value k, v)) scheme_matrix)"
    using assms by force
  then show ?thesis
    unfolding scheme_matrix_get_def using d by (rule map_of_is_SomeI[rotated])
qed

lemma scheme_matrix_classes:
  assumes "(k, send_method, send_exception) \<in> set scheme_matrix"
  shows "send_exception =
         (case k of
            HTTP \<Rightarrow> [RequestException]
          | HTTPS \<Rightarrow> [RequestException]
          | AWS_SQS \<Rightarrow> [ClientError]
          | GOOGLE_CLOUD_PUBSUB \<Rightarrow> [MessageTooLargeError, RuntimeError])"
proof -
  have "(k, send_exception) \<in> set (map (\<lambda>(k, m, x). (k, x)) scheme_matrix)"
    using assms by force
  then show ?thesis
    by (auto simp: scheme_matrix_def)
qed

text \<open>
  C4, as the code has it. For a URL of a known scheme, a failure of the adapter is turned
  into a \<open>FAILED\<close> result carrying the error's description exactly when its class is
  one of those the scheme table lists for that scheme: \<open>RequestException\<close> for
  \<open>http\<close> and \<open>https\<close>, \<open>ClientError\<close> for \<open>awssqs\<close>, \<open>MessageTooLargeError\<close>
  and \<open>RuntimeError\<close> for \<open>gcpubsub\<close>. A failure of any other class leaves the router
  as the exception it is.
\<close>

theorem adapter_failure_becomes_FAILED_result_iff_listed:
  assumes entry: "(k, send_method, send_exception) \<in> set scheme_matrix"
    and known: "lower (scheme (urlparse w url)) = scheme_value k"
    and raised: "send_method w url data domain (signature_for_payload w data secret) event_type
       = Inl e"
  shows "send_webhook_using_scheme_method w url domain secret event_type data
       = (if caught_by e send_exception
          then Inr \<lparr>content = exc_str e, request_headers = None, response_headers = None,
                    response_status_code = None, status = FAILED, duration = 0\<rparr>
          else Inl e)
     \<and> send_exception =
         (case k of
            HTTP \<Rightarrow> [RequestException]
          | HTTPS \<Rightarrow> [RequestException]
          | AWS_SQS \<Rightarrow> [ClientError]
          | GOOGLE_CLOUD_PUBSUB \<Rightarrow> [MessageTooLargeError, RuntimeError])"
proof -
  have "scheme_matrix_get (lower (scheme (urlparse w url))) = Some (send_method, send_exception)"
    using entry known by (simp add: scheme_matrix_get_entry)
  then have "send_webhook_using_scheme_method w url domain secret event_type data
       = (if caught_by e send_exception
          then Inr \<lparr>content = exc_str e, request_headers = None, response_headers = None,
                    response_status_code = None, status = FAILED, duration = 0\<rparr>
          else Inl e)"
    using raised
    by (simp add: send_webhook_using_scheme_method_def Let_def WebhookResponse_init_def)
  then show ?thesis
    using scheme_matrix_classes[OF entry] by simp
qed

theorem adapter_failure_becomes_FAILED_result_iff_listed_witness:
  "send_webhook_using_scheme_method (raising_world RequestException)
     ''https://example.com/hook'' ''shop.example.com'' (Some ''secret'') ''ORDER_CREATED'' ''{}''
   = Inr \<lparr>content = ''boom'', request_headers = None, response_headers = None,
          response_status_code = None, status = FAILED, duration = 0\<rparr>
   \<and> send_webhook_using_scheme_method (raising_world OtherException)
     ''https://example.com/hook'' ''shop.example.com'' (Some ''secret'') ''ORDER_CREATED'' ''{}''
   = Inl \<lparr>exc_class = OtherException, exc_str = ''boom'', exc_response = None\<rparr>"
proof -
  let ?m = "\<lambda>w u m d sg ev. send_webhook_using_http w u m d sg ev (WEBHOOK_TIMEOUT w)"
  have entry: "(HTTPS, ?m, [RequestException]) \<in> set scheme_matrix"
    by (simp add: scheme_matrix_def)
  have known: "lower (scheme (urlparse (raising_world c) ''https://example.com/hook''))
      = scheme_value HTTPS" for c
    by (simp add: raising_world_def example_world_def example_urlparse_def lower_def
        lower_char_def)
  have raised: "send_webhook_using_http (raising_world c) ''https://example.com/hook'' ''{}''
      ''shop.example.com'' (signature_for_payload (raising_world c) ''{}'' (Some ''secret''))
      ''ORDER_CREATED'' (WEBHOOK_TIMEOUT (raising_world c))
      = Inl \<lparr>exc_class = c, exc_str = ''boom'', exc_response = None\<rparr>" for c
    by (simp add: send_webhook_using_http_def raising_world_def Let_def)
  have listed: "caught_by \<lparr>exc_class = RequestException, exc_str = ''boom'',
      exc_response = None\<rparr> [RequestException]"
    by (simp add: caught_by_def isinstance_def)
  have unlisted: "\<not> caught_by \<lparr>exc_class = OtherException, exc_str = ''boom'',
      exc_response = None\<rparr> [RequestException]"
    by (simp add: caught_by_def isinstance_def)
  have a: "send_webhook_using_scheme_method (raising_world RequestException)
       ''https://example.com/hook'' ''shop.example.com'' (Some ''secret'') ''ORDER_CREATED''
       ''{}''
       = (if caught_by \<lparr>exc_class = RequestException, exc_str = ''boom'',
              exc_response = None\<rparr> [RequestException]
          then Inr \<lparr>content = exc_str \<lparr>exc_class = RequestException, exc_str = ''boom'',
                      exc_response = None\<rparr>,
                    request_headers = None, response_headers = None,
                    response_status_code = None, status = FAILED, duration = 0\<rparr>
          else Inl \<lparr>exc_class = RequestException, exc_str = ''boom'', exc_response = None\<rparr>)"
    by (rule conjunct1,
        rule adapter_failure_becomes_FAILED_result_iff_listed
          [where k = HTTPS and send_exception = "[RequestException]" and send_method = "?m"],
        rule entry, rule known, rule raised)
  have b: "send_webhook_using_scheme_method (raising_world OtherException)
       ''https://example.com/hook'' ''shop.example.com'' (Some ''secret'') ''ORDER_CREATED''
       ''{}''
       = (if caught_by \<lparr>exc_class = OtherException, exc_str = ''boom'',
              exc_response = None\<rparr> [RequestException]
          then Inr \<lparr>content = exc_str \<lparr>exc_class = OtherException, exc_str = ''boom'',
                      exc_response = None\<rparr>,
                    request_headers = None, response_headers = None,
                    response_status_code = None, status = FAILED, duration = 0\<rparr>
          else Inl \<lparr>exc_class = OtherException, exc_str = ''boom'', exc_response = None\<rparr>)"
    by (rule conjunct1,
        rule adapter_failure_becomes_FAILED_result_iff_listed
          [where k = HTTPS and send_exception = "[RequestException]" and send_method = "?m"],
        rule entry, rule known, rule raised)
  show ?thesis
    using a b listed unlisted by simp
qed

text \<open>
  The claim as stated fails: over \<open>https\<close>, a \<open>RuntimeError\<close> of the HTTP client is not
  in the scheme's list and leaves the router as an exception.
\<close>

theorem runtime_error_over_https_leaves_the_router:
  "lower (scheme (urlparse (raising_world RuntimeError) ''https://example.com/hook''))
     = ''https''
   \<and> send_webhook_using_scheme_method (raising_world RuntimeError)
       ''https://example.com/hook'' ''shop.example.com'' (Some ''secret'') ''ORDER_CREATED''
       ''{}''
     = Inl \<lparr>exc_class = RuntimeError, exc_str = ''boom'', exc_response = None\<rparr>"
proof -
  let ?w = "raising_world RuntimeError"
  have known: "lower (scheme (urlparse ?w ''https://example.com/hook'')) = ''https''"
    by (simp add: raising_world_def example_world_def example_urlparse_def lower_def
        lower_char_def)
  have raised: "send_webhook_using_http ?w ''https://example.com/hook'' ''{}''
      ''shop.example.com'' (signature_for_payload ?w ''{}'' (Some ''secret''))
      ''ORDER_CREATED'' (WEBHOOK_TIMEOUT ?w)
      = Inl \<lparr>exc_class = RuntimeError, exc_str = ''boom'', exc_response = None\<rparr>"
    by (simp add: send_webhook_using_http_def raising_world_def Let_def)
  have unlisted: "\<not> caught_by \<lparr>exc_class = RuntimeError, exc_str = ''boom'',
      exc_response = None\<rparr> [RequestException]"
    by (simp add: caught_by_def isinstance_def)
  show ?thesis
    using known raised unlisted
    by (simp add: send_webhook_using_scheme_method_def Let_def scheme_matrix_get_known)
qed

subsection \<open>Message-queue adapter\<close>

lemma split_no_sep: "sep \<notin> set u \<Longrightarrow> split u sep = [u]"
  by (induction u) auto

lemma split_append_sep: "sep \<notin> set u \<Longrightarrow> split (u @ sep # v) sep = u # split v sep"
  by (induction u) auto

lemma endswith_append: "endswith (u @ suffix) suffix"
  by (simp add: endswith_def)

lemma split_four_labels:
  assumes "CHR ''.'' \<notin> set a" "CHR ''.'' \<notin> set r" "CHR ''.'' \<notin> set b" "CHR ''.'' \<notin> set c"
  shows "split (a @ ''.'' @ r @ ''.'' @ b @ ''.'' @ c) (CHR ''.'') = [a, r, b, c]"
proof -
  have 1: "split c (CHR ''.'') = [c]"
    using assms(4) by (rule split_no_sep)
  have 2: "split (b @ CHR ''.'' # c) (CHR ''.'') = b # split c (CHR ''.'')"
    using assms(3) by (rule split_append_sep)
  have 3: "split (r @ CHR ''.'' # (b @ CHR ''.'' # c)) (CHR ''.'')
      = r # split (b @ CHR ''.'' # c) (CHR ''.'')"
    using assms(2) by (rule split_append_sep)
  have 4: "split (a @ CHR ''.'' # (r @ CHR ''.'' # (b @ CHR ''.'' # c))) (CHR ''.'')
      = a # split (r @ CHR ''.'' # (b @ CHR ''.'' # c)) (CHR ''.'')"
    using assms(1) by (rule split_append_sep)
  show ?thesis using 1 2 3 4 by simp
qed

text \<open>
  C9. For a message-queue URL with a host, the adapter builds the client for a region
  and, unless \<open>boto3.client\<close> refuses its arguments, sends exactly one message with it
  and reports the acknowledgement as a \<open>SUCCESS\<close>. The region is the second label of a
  host of four labels whose first is \<open>sqs\<close> (so \<open><region>\<close> for
  \<open>sqs.<region>.amazonaws.com\<close>), and \<open>us-east-1\<close> for every other host. The message
  carries \<open>MessageGroupId\<close> exactly when the path ends in \<open>.fifo\<close>, and it is then the
  domain; so it does for a path \<open>/<account>/<queue>.fifo\<close>.
\<close>

theorem aws_sqs_sends_with_region_and_message_group:
  assumes "hostname (urlparse w url) = Some host"
  shows "\<exists>region grp.
       send_webhook_using_aws_sqs w url message domain signature event_type =
         (case boto3_client w
                 \<lparr>region_name = region,
                  aws_access_key_id = username (urlparse w url),
                  aws_secret_access_key = password (urlparse w url)\<rparr> of
            Some e \<Rightarrow> Inl e
          | None \<Rightarrow>
              (case sqs_send_message w
                      \<lparr>region_name = region,
                       aws_access_key_id = username (urlparse w url),
                       aws_secret_access_key = password (urlparse w url)\<rparr>
                      \<lparr>QueueUrl =
                         urlunparse w
                           (''https'', host, path (urlparse w url), params (urlparse w url),
                            query (urlparse w url), fragment (urlparse w url)),
                       MessageAttributes =
                         [(''SaleorDomain'', ''String'', domain),
                          (''EventType'', ''String'', event_type)]
                         @ (if signature \<noteq> []
                            then [(''Signature'', ''String'', signature)] else []),
                       MessageBody = message,
                       MessageGroupId = grp\<rparr> of
                 Inl e \<Rightarrow> Inl e
               | Inr (response, d) \<Rightarrow>
                   Inr \<lparr>content = response, request_headers = None,
                        response_headers = None, response_status_code = None,
                        status = SUCCESS, duration = d\<rparr>))
     \<and> (\<forall>r b c. host = ''sqs.'' @ r @ ''.'' @ b @ ''.'' @ c
            \<and> CHR ''.'' \<notin> set r \<and> CHR ''.'' \<notin> set b \<and> CHR ''.'' \<notin> set c
          \<longrightarrow> region = r)
     \<and> (length (split host (CHR ''.'')) \<noteq> 4 \<or> split host (CHR ''.'') ! 0 \<noteq> ''sqs''
          \<longrightarrow> region = ''us-east-1'')
     \<and> grp = (if endswith (path (urlparse w url)) ''.fifo'' then Some domain else None)
     \<and> (\<forall>account queue. path (urlparse w url) = ''/'' @ account @ ''/'' @ queue @ ''.fifo''
          \<longrightarrow> grp = Some domain)"
proof -
  let ?labels = "split host (CHR ''.'')"
  let ?region = "if length ?labels = 4 \<and> ?labels ! 0 = ''sqs'' then ?labels ! 1 else ''us-east-1''"
  let ?grp = "if endswith (path (urlparse w url)) ''.fifo'' then Some domain else None"
  have four: "\<And>r b c. host = ''sqs.'' @ r @ ''.'' @ b @ ''.'' @ c \<Longrightarrow>
      CHR ''.'' \<notin> set r \<Longrightarrow> CHR ''.'' \<notin> set b \<Longrightarrow> CHR ''.'' \<notin> set c \<Longrightarrow> ?region = r"
    using split_four_labels[of "''sqs''"] by simp
  have fifo: "\<And>account queue. path (urlparse w url) = ''/'' @ account @ ''/'' @ queue @ ''.fifo''
      \<Longrightarrow> ?grp = Some domain"
    using endswith_append[of "''/'' @ account @ ''/'' @ queue" "''.fifo''" for account queue]
    by simp
  have run: "send_webhook_using_aws_sqs w url message domain signature event_type =
         (case boto3_client w
                 \<lparr>region_name = ?region,
                  aws_access_key_id = username (urlparse w url),
                  aws_secret_access_key = password (urlparse w url)\<rparr> of
            Some e \<Rightarrow> Inl e
          | None \<Rightarrow>
              (case sqs_send_message w
                      \<lparr>region_name = ?region,
                       aws_access_key_id = username (urlparse w url),
                       aws_secret_access_key = password (urlparse w url)\<rparr>
                      \<lparr>QueueUrl =
                         urlunparse w
                           (''https'', host, path (urlparse w url), params (urlparse w url),
                            query (urlparse w url), fragment (urlparse w url)),
                       MessageAttributes =
                         [(''SaleorDomain'', ''String'', domain),
                          (''EventType'', ''String'', event_type)]
                         @ (if signature \<noteq> []
                            then [(''Signature'', ''String'', signature)] else []),
                       MessageBody = message,
                       MessageGroupId = ?grp\<rparr> of
                 Inl e \<Rightarrow> Inl e
               | Inr (response, d) \<Rightarrow>
                   Inr \<lparr>content = response, request_headers = None,
                        response_headers = None, response_status_code = None,
                        status = SUCCESS, duration = d\<rparr>))"
    using assms
    by (simp add: send_webhook_using_aws_sqs_def Let_def WebhookResponse_init_def
        split del: if_split cong: option.case_cong sum.case_cong if_cong)
  show ?thesis
  proof (intro exI[of _ ?region] exI[of _ ?grp] conjI allI impI)
    show "send_webhook_using_aws_sqs w url message domain signature event_type =
         (case boto3_client w
                 \<lparr>region_name = ?region,
                  aws_access_key_id = username (urlparse w url),
                  aws_secret_access_key = password (urlparse w url)\<rparr> of
            Some e \<Rightarrow> Inl e
          | None \<Rightarrow>
              (case sqs_send_message w
                      \<lparr>region_name = ?region,
                       aws_access_key_id = username (urlparse w url),
                       aws_secret_access_key = password (urlparse w url)\<rparr>
                      \<lparr>QueueUrl =
                         urlunparse w
                           (''https'', host, path (urlparse w url), params (urlparse w url),
                            query (urlparse w url), fragment (urlparse w url)),
                       MessageAttributes =
                         [(''SaleorDomain'', ''String'', domain),
                          (''EventType'', ''String'', event_type)]
                         @ (if signature \<noteq> []
                            then [(''Signature'', ''String'', signature)] else []),
                       MessageBody = message,
                       MessageGroupId = ?grp\<rparr> of
                 Inl e \<Rightarrow> Inl e
               | Inr (response, d) \<Rightarrow>
                   Inr \<lparr>content = response, request_headers = None,
                        response_headers = None, response_status_code = None,
                        status = SUCCESS, duration = d\<rparr>))"
      by (rule run)
  next
    fix r b c
    assume "host = ''sqs.'' @ r @ ''.'' @ b @ ''.'' @ c
            \<and> CHR ''.'' \<notin> set r \<and> CHR ''.'' \<notin> set b \<and> CHR ''.'' \<notin> set c"
    then show "?region = r" using four by blast
  next
    assume "length ?labels \<noteq> 4 \<or> ?labels ! 0 \<noteq> ''sqs''"
    then show "?region = ''us-east-1''" by auto
  next
    show "?grp = ?grp" by (rule refl)
  next
    fix account queue
    assume "path (urlparse w url) = ''/'' @ account @ ''/'' @ queue @ ''.fifo''"
    then show "?grp = Some domain" by (rule fifo)
  qed
qed

theorem aws_sqs_sends_with_region_and_message_group_witness:
  "send_webhook_using_aws_sqs (example_world 200 ok_true_body)
     ''awssqs://k:s@sqs.us-west-2.amazonaws.com/123/q.fifo'' ''{}'' ''shop.example.com''
     ''signature'' ''ORDER_CREATED''
   = Inr \<lparr>content = ''us-west-2 shop.example.com'', request_headers = None,
          response_headers = None, response_status_code = None, status = SUCCESS,
          duration = 1\<rparr>"
proof -
  let ?w = "example_world 200 ok_true_body"
  let ?u = "''awssqs://k:s@sqs.us-west-2.amazonaws.com/123/q.fifo''"
  have h: "hostname (urlparse ?w ?u) = Some ''sqs.us-west-2.amazonaws.com''"
    by (simp add: example_world_def example_urlparse_def)
  have p: "path (urlparse ?w ?u) = ''/'' @ ''123'' @ ''/'' @ ''q'' @ ''.fifo''"
    by (simp add: example_world_def example_urlparse_def)
  have hr: "''sqs.us-west-2.amazonaws.com''
      = ''sqs.'' @ ''us-west-2'' @ ''.'' @ ''amazonaws'' @ ''.'' @ ''com''
      \<and> CHR ''.'' \<notin> set ''us-west-2'' \<and> CHR ''.'' \<notin> set ''amazonaws''
      \<and> CHR ''.'' \<notin> set ''com''"
    by simp
  from aws_sqs_sends_with_region_and_message_group[OF h, of "''{}''" "''shop.example.com''"
      "''signature''" "''ORDER_CREATED''"]
  obtain region grp where
    run: "send_webhook_using_aws_sqs ?w ?u ''{}'' ''shop.example.com'' ''signature''
        ''ORDER_CREATED'' =
         (case boto3_client ?w
                 \<lparr>region_name = region,
                  aws_access_key_id = username (urlparse ?w ?u),
                  aws_secret_access_key = password (urlparse ?w ?u)\<rparr> of
            Some e \<Rightarrow> Inl e
          | None \<Rightarrow>
              (case sqs_send_message ?w
                      \<lparr>region_name = region,
                       aws_access_key_id = username (urlparse ?w ?u),
                       aws_secret_access_key = password (urlparse ?w ?u)\<rparr>
                      \<lparr>QueueUrl =
                         urlunparse ?w
                           (''https'', ''sqs.us-west-2.amazonaws.com'', path (urlparse ?w ?u),
                            params (urlparse ?w ?u), query (urlparse ?w ?u),
                            fragment (urlparse ?w ?u)),
                       MessageAttributes =
                         [(''SaleorDomain'', ''String'', ''shop.example.com''),
                          (''EventType'', ''String'', ''ORDER_CREATED'')]
                         @ (if ''signature'' \<noteq> []
                            then [(''Signature'', ''String'', ''signature'')] else []),
                       MessageBody = ''{}'',
                       MessageGroupId = grp\<rparr> of
                 Inl e \<Rightarrow> Inl e
               | Inr (response, d) \<Rightarrow>
                   Inr \<lparr>content = response, request_headers = None,
                        response_headers = None, response_status_code = None,
                        status = SUCCESS, duration = d\<rparr>))"
    and reg: "\<forall>r b c. ''sqs.us-west-2.amazonaws.com'' = ''sqs.'' @ r @ ''.'' @ b @ ''.'' @ c
            \<and> CHR ''.'' \<notin> set r \<and> CHR ''.'' \<notin> set b \<and> CHR ''.'' \<notin> set c
          \<longrightarrow> region = r"
    and fifo: "\<forall>account queue. path (urlparse ?w ?u) = ''/'' @ account @ ''/'' @ queue @ ''.fifo''
          \<longrightarrow> grp = Some ''shop.example.com''"
    by blast
  have r: "region = ''us-west-2''"
    using reg hr by blast
  have g: "grp = Some ''shop.example.com''"
    using fifo p by blast
  have b: "boto3_client ?w c = None" for c
    by (simp add: example_world_def)
  have m: "sqs_send_message ?w c k
      = Inr (region_name c @ '' '' @ (case MessageGroupId k of None \<Rightarrow> ''-'' | Some g \<Rightarrow> g), 1)"
    for c k
    by (simp add: example_world_def)
  show ?thesis
    unfolding run r g b m by simp
qed

subsection \<open>Re-running the task\<close>

text \<open>Every run of the task on a delivery that exists, by its branches.\<close>

lemma async_run_cases:
  assumes found: "get_delivery s i = Some delivery"
  shows "send_webhook_request_async w self i s =
     (if \<not> is_active (delivery_webhook delivery)
      then (Returned, snd (delivery_update delivery FAILED s))
      else
        (case dispatch w delivery of
           Inr r \<Rightarrow>
             (if status r = FAILED
              then
                (if request_retries self < max_retries
                 then (Retried,
                       s\<lparr>attempt_rows := attempt_rows s @
                            [filled_attempt s delivery (Some (request_id self)) r],
                         task_queue := task_queue s @
                            [retry_message i (request_retries self)]\<rparr>)
                 else (Returned,
                       snd (delivery_update delivery FAILED
                         (s\<lparr>attempt_rows := attempt_rows s @
                              [filled_attempt s delivery (Some (request_id self)) r]\<rparr>))))
              else (Returned,
                    clear_successful_delivery (delivery\<lparr>delivery_status := SUCCESS\<rparr>)
                      (snd (delivery_update delivery SUCCESS
                         (s\<lparr>attempt_rows := attempt_rows s @
                              [filled_attempt s delivery (Some (request_id self)) r]\<rparr>)))))
         | Inl e \<Rightarrow>
             (if isinstance e ValueError
              then (Returned,
                    snd (delivery_update delivery FAILED
                      (s\<lparr>attempt_rows := attempt_rows s @
                           [filled_attempt s delivery (Some (request_id self))
                              ((WebhookResponse_init (exc_str e))\<lparr>status := FAILED\<rparr>)]\<rparr>)))
              else (Raised e, snd (create_attempt delivery (Some (request_id self)) s)))))"
proof -
  obtain attempt s0 where
    ca: "create_attempt delivery (Some (request_id self)) s = (attempt, s0)"
    by (cases "create_attempt delivery (Some (request_id self)) s")
  have au: "\<And>r. attempt_update attempt r s0 =
      s\<lparr>attempt_rows := attempt_rows s @
          [filled_attempt s delivery (Some (request_id self)) r]\<rparr>"
    using ca by (rule attempt_update_create_attempt)
  show ?thesis
  proof (cases "dispatch w delivery")
    case (Inl e)
    then have "send_webhook_using_scheme_method w (target_url (delivery_webhook delivery))
       (current_domain w) (secret_key (delivery_webhook delivery))
       (delivery_event_type delivery) (payload_text (delivery_payload delivery)) = Inl e"
      by (simp add: dispatch_def)
    then show ?thesis
      using found Inl ca au
      by (simp add: send_webhook_request_async_def Let_def case_prod_beta
          clear_successful_delivery_def delivery_update_def)
  next
    case (Inr r)
    then have "send_webhook_using_scheme_method w (target_url (delivery_webhook delivery))
       (current_domain w) (secret_key (delivery_webhook delivery))
       (delivery_event_type delivery) (payload_text (delivery_payload delivery)) = Inr r"
      by (simp add: dispatch_def)
    then show ?thesis
      using found Inr ca au
      by (simp add: send_webhook_request_async_def Let_def case_prod_beta retry_def
          retry_message_def clear_successful_delivery_def delivery_update_def)
  qed
qed

lemma get_delivery_after_update:
  "get_delivery s i = Some row \<Longrightarrow> delivery_id delivery = i \<Longrightarrow>
   get_delivery (snd (delivery_update delivery st s)) i = Some (row\<lparr>delivery_status := st\<rparr>)"
  using get_delivery_delivery_update[of s delivery row st] by simp

text \<open>
  C2, as the code has it. A run of the task on a delivery whose status is already
  \<open>SUCCESS\<close> or \<open>FAILED\<close> never puts it back to \<open>PENDING\<close>, and leaves the status as
  it was when the run ends by sending a retry or by an exception that leaves the task.
  A run that returns writes its own outcome over the stored status: \<open>FAILED\<close> for an
  inactive webhook, for an unsupported scheme (a \<open>ValueError\<close>) and for a failed
  transmission with no retry left, \<open>SUCCESS\<close> for a transmission that did not fail.
\<close>

theorem rerun_keeps_status_terminal:
  assumes found: "get_delivery s i = Some delivery"
    and terminal: "delivery_status delivery \<noteq> PENDING"
  shows "\<exists>out st s1.
       send_webhook_request_async w self i s = (out, s1)
     \<and> get_delivery s1 i = Some (delivery\<lparr>delivery_status := st\<rparr>)
     \<and> st \<noteq> PENDING
     \<and> (out \<noteq> Returned \<longrightarrow> st = delivery_status delivery)
     \<and> (if \<not> is_active (delivery_webhook delivery) then out = Returned \<and> st = FAILED
        else
          (case dispatch w delivery of
             Inr r \<Rightarrow>
               (if status r = FAILED
                then (if request_retries self < max_retries
                      then out = Retried \<and> st = delivery_status delivery
                      else out = Returned \<and> st = FAILED)
                else out = Returned \<and> st = SUCCESS)
           | Inl e \<Rightarrow>
               (if isinstance e ValueError then out = Returned \<and> st = FAILED
                else out = Raised e \<and> st = delivery_status delivery)))"
proof -
  have i: "delivery_id delivery = i"
    using found by (rule get_delivery_id)
  have same: "delivery\<lparr>delivery_status := delivery_status delivery\<rparr> = delivery"
    by simp
  have upd: "\<And>rows st. get_delivery (snd (delivery_update delivery st
        (s\<lparr>attempt_rows := rows\<rparr>))) i = Some (delivery\<lparr>delivery_status := st\<rparr>)"
    using found i by (simp add: get_delivery_after_update)
  have upd0: "\<And>st. get_delivery (snd (delivery_update delivery st s)) i
      = Some (delivery\<lparr>delivery_status := st\<rparr>)"
    using found i by (simp add: get_delivery_after_update)
  show ?thesis
  proof (cases "is_active (delivery_webhook delivery)")
    case False
    then show ?thesis
      using async_run_cases[OF found, of w self] upd0 by simp
  next
    case True
    show ?thesis
    proof (cases "dispatch w delivery")
      case (Inl e)
      show ?thesis
      proof (cases "isinstance e ValueError")
        case True
        then show ?thesis
          using async_run_cases[OF found, of w self] \<open>is_active (delivery_webhook delivery)\<close>
            Inl upd by simp
      next
        case False
        have "get_delivery (snd (create_attempt delivery (Some (request_id self)) s)) i
            = Some (delivery\<lparr>delivery_status := delivery_status delivery\<rparr>)"
          using found by simp
        then show ?thesis
          using async_run_cases[OF found, of w self] \<open>is_active (delivery_webhook delivery)\<close>
            Inl False terminal by simp
      qed
    next
      case (Inr r)
      show ?thesis
      proof (cases "status r = FAILED")
        case False
        then show ?thesis
          using async_run_cases[OF found, of w self] True Inr upd by simp
      next
        case failed: True
        show ?thesis
        proof (cases "request_retries self < max_retries")
          case False
          then show ?thesis
            using async_run_cases[OF found, of w self] True Inr failed upd by simp
        next
          case retry: True
          have "get_delivery
              (s\<lparr>attempt_rows := attempt_rows s @
                   [filled_attempt s delivery (Some (request_id self)) r],
                 task_queue := task_queue s @ [retry_message i (request_retries self)]\<rparr>) i
              = Some (delivery\<lparr>delivery_status := delivery_status delivery\<rparr>)"
            using found by simp
          then show ?thesis
            using async_run_cases[OF found, of w self] True Inr failed retry terminal by simp
        qed
      qed
    qed
  qed
qed

theorem rerun_keeps_status_terminal_witness:
  "\<exists>s1. send_webhook_request_async (example_world 500 ''oops'') (example_request 0) 1
       (example_store (example_delivery FAILED
          (example_webhook 1 ''https://example.com/hook'' True None)))
     = (Retried, s1)
   \<and> get_delivery s1 1
     = Some (example_delivery FAILED (example_webhook 1 ''https://example.com/hook'' True None))"
proof -
  let ?w = "example_world 500 ''oops''"
  let ?d = "example_delivery FAILED (example_webhook 1 ''https://example.com/hook'' True None)"
  have found: "get_delivery (example_store ?d) 1 = Some ?d"
    by (simp add: get_delivery_def example_store_def example_delivery_def)
  have terminal: "delivery_status ?d \<noteq> PENDING"
    by (simp add: example_delivery_def)
  have active: "is_active (delivery_webhook ?d)"
    by (simp add: example_delivery_def example_webhook_def)
  have known: "lower (scheme (urlparse ?w ''https://example.com/hook'')) = ''https''"
    by (simp add: example_world_def example_urlparse_def lower_def lower_char_def)
  have post: "send_webhook_using_http ?w ''https://example.com/hook'' ''{}''
      (current_domain ?w) (signature_for_payload ?w ''{}'' (Some ''secret''))
      ''ORDER_CREATED'' (WEBHOOK_TIMEOUT ?w)
      = Inr \<lparr>content = ''oops'',
             request_headers = Some (http_headers ''ORDER_CREATED'' (current_domain ?w)
               (signature_for_payload ?w ''{}'' (Some ''secret''))),
             response_headers = Some [], response_status_code = Some 500,
             status = FAILED, duration = 1\<rparr>"
    by (simp add: send_webhook_using_http_def example_world_def http_response_def ok_def Let_def)
  have d: "dispatch ?w ?d
      = Inr \<lparr>content = ''oops'',
             request_headers = Some (http_headers ''ORDER_CREATED'' (current_domain ?w)
               (signature_for_payload ?w ''{}'' (Some ''secret''))),
             response_headers = Some [], response_status_code = Some 500,
             status = FAILED, duration = 1\<rparr>"
    using known post
    by (simp add: dispatch_def send_webhook_using_scheme_method_def
        Let_def scheme_matrix_get_known example_delivery_def example_webhook_def)
  have r: "request_retries (example_request 0) < max_retries"
    by (simp add: example_request_def max_retries_def)
  have same: "?d\<lparr>delivery_status := delivery_status ?d\<rparr> = ?d"
    by simp
  from rerun_keeps_status_terminal[OF found terminal, of ?w "example_request 0"]
  obtain out st s1 where
    run: "send_webhook_request_async ?w (example_request 0) 1 (example_store ?d) = (out, s1)"
    and gd: "get_delivery s1 1 = Some (?d\<lparr>delivery_status := st\<rparr>)"
    and branches: "(if \<not> is_active (delivery_webhook ?d) then out = Returned \<and> st = FAILED
        else
          (case dispatch ?w ?d of
             Inr r \<Rightarrow>
               (if status r = FAILED
                then (if request_retries (example_request 0) < max_retries
                      then out = Retried \<and> st = delivery_status ?d
                      else out = Returned \<and> st = FAILED)
                else out = Returned \<and> st = SUCCESS)
           | Inl e \<Rightarrow>
               (if isinstance e ValueError then out = Returned \<and> st = FAILED
                else out = Raised e \<and> st = delivery_status ?d)))"
    by blast
  have "out = Retried \<and> st = delivery_status ?d"
    using branches active d r by simp
  then show ?thesis
    using run gd same by simp
qed

text \<open>
  The claim as stated fails: a delivery that is \<open>FAILED\<close>, re-run while its webhook is
  active and the endpoint answers 200, is marked \<open>SUCCESS\<close>.
\<close>

theorem rerun_overwrites_FAILED_with_SUCCESS:
  "map delivery_status
     (delivery_rows (example_store (example_delivery FAILED
        (example_webhook 1 ''https://example.com/hook'' True None))))
     = [FAILED]
   \<and> fst (send_webhook_request_async (example_world 200 ok_true_body) (example_request 0) 1
       (example_store (example_delivery FAILED
          (example_webhook 1 ''https://example.com/hook'' True None))))
     = Returned
   \<and> map delivery_status
       (delivery_rows (snd (send_webhook_request_async (example_world 200 ok_true_body)
          (example_request 0) 1
          (example_store (example_delivery FAILED
             (example_webhook 1 ''https://example.com/hook'' True None))))))
     = [SUCCESS]"
proof -
  let ?w = "example_world 200 ok_true_body"
  let ?d = "example_delivery FAILED (example_webhook 1 ''https://example.com/hook'' True None)"
  have found: "get_delivery (example_store ?d) 1 = Some ?d"
    by (simp add: get_delivery_def example_store_def example_delivery_def)
  have active: "is_active (delivery_webhook ?d)"
    by (simp add: example_delivery_def example_webhook_def)
  have known: "lower (scheme (urlparse ?w ''https://example.com/hook'')) = ''https''"
    by (simp add: example_world_def example_urlparse_def lower_def lower_char_def)
  have post: "send_webhook_using_http ?w ''https://example.com/hook'' ''{}''
      (current_domain ?w) (signature_for_payload ?w ''{}'' (Some ''secret''))
      ''ORDER_CREATED'' (WEBHOOK_TIMEOUT ?w)
      = Inr \<lparr>content = ok_true_body,
             request_headers = Some (http_headers ''ORDER_CREATED'' (current_domain ?w)
               (signature_for_payload ?w ''{}'' (Some ''secret''))),
             response_headers = Some [], response_status_code = Some 200,
             status = SUCCESS, duration = 1\<rparr>"
    by (simp add: send_webhook_using_http_def example_world_def http_response_def ok_def Let_def)
  have d: "dispatch ?w ?d
      = Inr \<lparr>content = ok_true_body,
             request_headers = Some (http_headers ''ORDER_CREATED'' (current_domain ?w)
               (signature_for_payload ?w ''{}'' (Some ''secret''))),
             response_headers = Some [], response_status_code = Some 200,
             status = SUCCESS, duration = 1\<rparr>"
    using known post
    by (simp add: dispatch_def send_webhook_using_scheme_method_def
        Let_def scheme_matrix_get_known example_delivery_def example_webhook_def)
  have before: "map delivery_status (delivery_rows (example_store ?d)) = [FAILED]"
    by (simp add: example_store_def example_delivery_def)
  have after: "map delivery_status (delivery_rows (snd (delivery_update ?d SUCCESS
      (example_store ?d\<lparr>attempt_rows := rows\<rparr>)))) = [SUCCESS]" for rows
    by (simp add: delivery_update_def example_store_def example_delivery_def)
  show ?thesis
    using async_run_cases[OF found, of ?w "example_request 0"] active d before after
    by simp
qed

subsection \<open>Retries\<close>

text \<open>One run of the task on an active delivery for which the router returns \<open>FAILED\<close>.\<close>

lemma async_failed_run:
  assumes found: "get_delivery s i = Some delivery"
    and active: "is_active (delivery_webhook delivery)"
    and failed: "dispatch w delivery = Inr r" "status r = FAILED"
  shows "send_webhook_request_async w \<lparr>request_id = tid, request_retries = n\<rparr> i s =
     (if n < max_retries
      then (Retried,
            s\<lparr>attempt_rows := attempt_rows s @ [filled_attempt s delivery (Some tid) r],
              task_queue := task_queue s @
                [\<lparr>msg_delivery_id = i, msg_countdown = Some (retry_backoff * 2 ^ n),
                  msg_retries = Suc n\<rparr>]\<rparr>)
      else (Returned,
            snd (delivery_update delivery FAILED
              (s\<lparr>attempt_rows :=
                   attempt_rows s @ [filled_attempt s delivery (Some tid) r]\<rparr>))))"
proof -
  obtain attempt s0 where ca: "create_attempt delivery (Some tid) s = (attempt, s0)"
    by (cases "create_attempt delivery (Some tid) s")
  have au: "attempt_update attempt r s0 =
      s\<lparr>attempt_rows := attempt_rows s @ [filled_attempt s delivery (Some tid) r]\<rparr>"
    using ca by (rule attempt_update_create_attempt)
  have d: "send_webhook_using_scheme_method w (target_url (delivery_webhook delivery))
       (current_domain w) (secret_key (delivery_webhook delivery))
       (delivery_event_type delivery) (payload_text (delivery_payload delivery)) = Inr r"
    using failed(1) by (simp add: dispatch_def)
  show ?thesis
    using found active d failed(2) ca au
    by (simp add: send_webhook_request_async_def Let_def retry_def case_prod_beta
        clear_successful_delivery_def delivery_update_def)
qed

lemma router_returns_FAILED_result:
  "router_returns_FAILED w delivery \<Longrightarrow> \<exists>r. dispatch w delivery = Inr r \<and> status r = FAILED"
  by (cases "dispatch w delivery") (simp_all add: router_returns_FAILED_def)

lemma attempts_of_append:
  "attempts_of (s\<lparr>attempt_rows := attempt_rows s @ [a]\<rparr>) i
     = attempts_of s i @ (if attempt_delivery a = i then [a] else [])"
  by (simp add: attempts_of_def)

lemma attempts_of_other_tables [simp]:
  "attempts_of (s\<lparr>task_queue := q\<rparr>) i = attempts_of s i"
  "attempts_of (snd (delivery_update d st s)) i = attempts_of s i"
  by (simp_all add: attempts_of_def)

lemma run_delivery_all_fail:
  assumes active: "is_active (delivery_webhook delivery)"
    and failing: "\<forall>m. router_returns_FAILED (ws m) delivery"
  shows "k = max_retries - n \<Longrightarrow> n \<le> max_retries \<Longrightarrow> get_delivery s i = Some delivery \<Longrightarrow>
     get_delivery (run_delivery ws tid i n s) i = Some (delivery\<lparr>delivery_status := FAILED\<rparr>)
     \<and> task_queue (run_delivery ws tid i n s)
         = task_queue s @ map (retry_message i) [n..<max_retries]
     \<and> (\<exists>new. attempts_of (run_delivery ws tid i n s) i = attempts_of s i @ new
           \<and> length new = Suc max_retries - n
           \<and> list_all (\<lambda>a. attempt_status a = Some FAILED) new)"
proof (induction k arbitrary: n s)
  case 0
  then have n: "\<not> n < max_retries" by simp
  obtain r where r: "dispatch (ws n) delivery = Inr r" "status r = FAILED"
    using failing router_returns_FAILED_result by blast
  have i: "delivery_id delivery = i"
    using "0.prems"(3) by (rule get_delivery_id)
  let ?s1 = "s\<lparr>attempt_rows := attempt_rows s @ [filled_attempt s delivery (Some tid) r]\<rparr>"
  have run: "run_delivery ws tid i n s = snd (delivery_update delivery FAILED ?s1)"
    using async_failed_run[OF "0.prems"(3) active r, of tid n] n
    by (subst run_delivery.simps) simp
  have gd: "get_delivery (snd (delivery_update delivery FAILED ?s1)) i
      = Some (delivery\<lparr>delivery_status := FAILED\<rparr>)"
    using get_delivery_delivery_update[of ?s1 delivery delivery FAILED] "0.prems"(3) i by simp
  have at: "attempts_of (snd (delivery_update delivery FAILED ?s1)) i
      = attempts_of s i @ [filled_attempt s delivery (Some tid) r]"
    using i by (simp add: attempts_of_append filled_attempt_def)
  have st: "attempt_status (filled_attempt s delivery (Some tid) r) = Some FAILED"
    using r(2) by (simp add: filled_attempt_def)
  show ?case
    using run gd at st n "0.prems"(2) by simp
next
  case (Suc k)
  then have n: "n < max_retries" and k: "k = max_retries - Suc n" and le: "Suc n \<le> max_retries"
    by simp_all
  obtain r where r: "dispatch (ws n) delivery = Inr r" "status r = FAILED"
    using failing router_returns_FAILED_result by blast
  have i: "delivery_id delivery = i"
    using Suc.prems(3) by (rule get_delivery_id)
  let ?s1 = "s\<lparr>attempt_rows := attempt_rows s @ [filled_attempt s delivery (Some tid) r],
      task_queue := task_queue s @ [retry_message i n]\<rparr>"
  have run: "run_delivery ws tid i n s = run_delivery ws tid i (Suc n) ?s1"
    using async_failed_run[OF Suc.prems(3) active r, of tid n] n
    by (subst run_delivery.simps) (simp add: retry_message_def)
  have gd: "get_delivery ?s1 i = Some delivery"
    using Suc.prems(3) by (simp add: get_delivery_def)
  have at: "attempts_of ?s1 i = attempts_of s i @ [filled_attempt s delivery (Some tid) r]"
    using i by (simp add: attempts_of_def filled_attempt_def)
  have st: "attempt_status (filled_attempt s delivery (Some tid) r) = Some FAILED"
    using r(2) by (simp add: filled_attempt_def)
  from Suc.IH[OF k le gd] obtain new where
    ih1: "get_delivery (run_delivery ws tid i (Suc n) ?s1) i
        = Some (delivery\<lparr>delivery_status := FAILED\<rparr>)"
    and ih2: "task_queue (run_delivery ws tid i (Suc n) ?s1)
        = task_queue ?s1 @ map (retry_message i) [Suc n..<max_retries]"
    and ih3: "attempts_of (run_delivery ws tid i (Suc n) ?s1) i = attempts_of ?s1 i @ new"
    and ih4: "length new = Suc max_retries - Suc n"
    and ih5: "list_all (\<lambda>a. attempt_status a = Some FAILED) new"
    by blast
  have q: "task_queue (run_delivery ws tid i n s)
      = task_queue s @ map (retry_message i) [n..<max_retries]"
    using run ih2 n by (simp add: upt_conv_Cons)
  have a: "attempts_of (run_delivery ws tid i n s) i
      = attempts_of s i @ (filled_attempt s delivery (Some tid) r # new)"
    using run ih3 at by simp
  have l: "length (filled_attempt s delivery (Some tid) r # new) = Suc max_retries - n"
    using ih4 n by simp
  have f: "list_all (\<lambda>a. attempt_status a = Some FAILED)
      (filled_attempt s delivery (Some tid) r # new)"
    using ih5 st by simp
  have g: "get_delivery (run_delivery ws tid i n s) i
      = Some (delivery\<lparr>delivery_status := FAILED\<rparr>)"
    using run ih1 by simp
  show ?case
    using g q a l f by (intro conjI exI[of _ "filled_attempt s delivery (Some tid) r # new"])
qed

text \<open>A run on an active delivery whose dispatch raises an exception that is no \<open>ValueError\<close>.\<close>

lemma run_delivery_raised:
  assumes found: "get_delivery s i = Some delivery"
    and active: "is_active (delivery_webhook delivery)"
    and raised: "dispatch (ws n) delivery = Inl e"
    and other: "\<not> isinstance e ValueError"
  shows "run_delivery ws tid i n s = snd (create_attempt delivery (Some tid) s)"
  using async_run_cases[OF found, of "ws n" "\<lparr>request_id = tid, request_retries = n\<rparr>"]
    active raised other
  by (subst run_delivery.simps) simp

text \<open>
  C5, as the code has it. A delivery to an active webhook, run by the job queue. When
  every attempt ends in a \<open>FAILED\<close> result returned by the router, the run with \<open>n\<close>
  retries sends its retry with the countdown \<open>10 * 2 ^ n\<close>, five retries are sent in
  all, the delivery ends \<open>FAILED\<close>, and exactly \<open>max_retries + 1\<close> attempts are
  recorded for it, each of them \<open>FAILED\<close>. When the dispatch of a run raises an exception
  that is no \<open>ValueError\<close>, that run is the last: no retry is sent, the delivery keeps
  its status, and the run leaves one attempt without a result.
\<close>

theorem failing_delivery_retries_or_raises:
  assumes found: "get_delivery s i = Some delivery"
    and active: "is_active (delivery_webhook delivery)"
  shows "((\<forall>n. router_returns_FAILED (ws n) delivery) \<longrightarrow>
        task_queue (run_delivery ws tid i 0 s)
          = task_queue s @
            map (\<lambda>n. \<lparr>msg_delivery_id = i, msg_countdown = Some (10 * 2 ^ n),
                       msg_retries = Suc n\<rparr>) [0..<5]
        \<and> get_delivery (run_delivery ws tid i 0 s) i
          = Some (delivery\<lparr>delivery_status := FAILED\<rparr>)
        \<and> (\<exists>new. attempts_of (run_delivery ws tid i 0 s) i = attempts_of s i @ new
              \<and> length new = max_retries + 1
              \<and> list_all (\<lambda>a. attempt_status a = Some FAILED) new)
        \<and> max_retries = 5)
     \<and> (\<forall>n e. dispatch (ws n) delivery = Inl e \<and> \<not> isinstance e ValueError \<longrightarrow>
        task_queue (run_delivery ws tid i n s) = task_queue s
        \<and> get_delivery (run_delivery ws tid i n s) i = Some delivery
        \<and> (\<exists>a. attempts_of (run_delivery ws tid i n s) i = attempts_of s i @ [a]
              \<and> attempt_status a = None \<and> attempt_response a = None))"
proof -
  have m: "map (retry_message i) [0..<max_retries]
      = map (\<lambda>n. \<lparr>msg_delivery_id = i, msg_countdown = Some (10 * 2 ^ n),
                    msg_retries = Suc n\<rparr>) [0..<5]"
    by (simp add: retry_message_def retry_backoff_def max_retries_def)
  have a: "task_queue (run_delivery ws tid i 0 s)
          = task_queue s @
            map (\<lambda>n. \<lparr>msg_delivery_id = i, msg_countdown = Some (10 * 2 ^ n),
                       msg_retries = Suc n\<rparr>) [0..<5]
        \<and> get_delivery (run_delivery ws tid i 0 s) i
          = Some (delivery\<lparr>delivery_status := FAILED\<rparr>)
        \<and> (\<exists>new. attempts_of (run_delivery ws tid i 0 s) i = attempts_of s i @ new
              \<and> length new = max_retries + 1
              \<and> list_all (\<lambda>a. attempt_status a = Some FAILED) new)
        \<and> max_retries = 5"
    if failing: "\<forall>n. router_returns_FAILED (ws n) delivery"
    using run_delivery_all_fail[OF active failing refl _ found, of 0 tid] m
    by (simp add: max_retries_def)
  have b: "task_queue (run_delivery ws tid i n s) = task_queue s
        \<and> get_delivery (run_delivery ws tid i n s) i = Some delivery
        \<and> (\<exists>a. attempts_of (run_delivery ws tid i n s) i = attempts_of s i @ [a]
              \<and> attempt_status a = None \<and> attempt_response a = None)"
    if r: "dispatch (ws n) delivery = Inl e \<and> \<not> isinstance e ValueError" for n e
  proof -
    have i: "delivery_id delivery = i"
      using found by (rule get_delivery_id)
    have run: "run_delivery ws tid i n s = snd (create_attempt delivery (Some tid) s)"
      using run_delivery_raised[OF found active] r by blast
    have rows: "attempts_of (snd (create_attempt delivery (Some tid) s)) i
        = attempts_of s i @ [fst (create_attempt delivery (Some tid) s)]"
      using i by (simp add: create_attempt_def Let_def attempts_of_def)
    have none: "attempt_status (fst (create_attempt delivery (Some tid) s)) = None"
      "attempt_response (fst (create_attempt delivery (Some tid) s)) = None"
      by (simp_all add: create_attempt_def Let_def)
    have q: "task_queue (snd (create_attempt delivery (Some tid) s)) = task_queue s"
      by (simp add: create_attempt_def Let_def)
    have g: "get_delivery (snd (create_attempt delivery (Some tid) s)) i = Some delivery"
      using found by simp
    show ?thesis
      unfolding run using rows none q g by blast
  qed
  show ?thesis
    using a b by blast
qed

lemma upt_5: "[0..<5] = [0, 1, 2, 3, 4]"
  by (simp add: upt_rec)

theorem failing_delivery_retries_or_raises_witness:
  "map msg_countdown
     (task_queue (run_delivery (\<lambda>n. example_world 500 ''oops'') ''task-1'' 1 0
        (example_store (example_delivery PENDING
           (example_webhook 1 ''https://example.com/hook'' True None)))))
     = [Some 10, Some 20, Some 40, Some 80, Some 160]
   \<and> get_delivery
       (run_delivery (\<lambda>n. example_world 500 ''oops'') ''task-1'' 1 0
          (example_store (example_delivery PENDING
             (example_webhook 1 ''https://example.com/hook'' True None)))) 1
     = Some (example_delivery FAILED (example_webhook 1 ''https://example.com/hook'' True None))
   \<and> length (attempts_of
       (run_delivery (\<lambda>n. example_world 500 ''oops'') ''task-1'' 1 0
          (example_store (example_delivery PENDING
             (example_webhook 1 ''https://example.com/hook'' True None)))) 1) = 6"
proof -
  let ?w = "example_world 500 ''oops''"
  let ?d = "example_delivery PENDING (example_webhook 1 ''https://example.com/hook'' True None)"
  have found: "get_delivery (example_store ?d) 1 = Some ?d"
    by (simp add: get_delivery_def example_store_def example_delivery_def)
  have active: "is_active (delivery_webhook ?d)"
    by (simp add: example_delivery_def example_webhook_def)
  have known: "lower (scheme (urlparse ?w ''https://example.com/hook'')) = ''https''"
    by (simp add: example_world_def example_urlparse_def lower_def lower_char_def)
  have post: "send_webhook_using_http ?w ''https://example.com/hook'' ''{}''
      (current_domain ?w) (signature_for_payload ?w ''{}'' (Some ''secret''))
      ''ORDER_CREATED'' (WEBHOOK_TIMEOUT ?w)
      = Inr \<lparr>content = ''oops'',
             request_headers = Some (http_headers ''ORDER_CREATED'' (current_domain ?w)
               (signature_for_payload ?w ''{}'' (Some ''secret''))),
             response_headers = Some [], response_status_code = Some 500,
             status = FAILED, duration = 1\<rparr>"
    by (simp add: send_webhook_using_http_def example_world_def http_response_def ok_def Let_def)
  have "router_returns_FAILED ?w ?d"
    using known post
    by (simp add: router_returns_FAILED_def dispatch_def send_webhook_using_scheme_method_def
        Let_def scheme_matrix_get_known example_delivery_def example_webhook_def)
  then have failing: "\<forall>n. router_returns_FAILED ((\<lambda>n. ?w) n) ?d"
    by simp
  have empty: "task_queue (example_store ?d) = []" "attempts_of (example_store ?d) 1 = []"
    by (simp_all add: example_store_def attempts_of_def)
  have st: "?d\<lparr>delivery_status := FAILED\<rparr>
      = example_delivery FAILED (example_webhook 1 ''https://example.com/hook'' True None)"
    by (simp add: example_delivery_def)
  have five: "max_retries + 1 = 6"
    by (simp add: max_retries_def)
  from failing_delivery_retries_or_raises[OF found active, of "\<lambda>n. ?w" "''task-1''"] failing
  have "task_queue (run_delivery (\<lambda>n. ?w) ''task-1'' 1 0 (example_store ?d))
          = task_queue (example_store ?d) @
            map (\<lambda>n. \<lparr>msg_delivery_id = 1, msg_countdown = Some (10 * 2 ^ n),
                       msg_retries = Suc n\<rparr>) [0..<5]
        \<and> get_delivery (run_delivery (\<lambda>n. ?w) ''task-1'' 1 0 (example_store ?d)) 1
          = Some (?d\<lparr>delivery_status := FAILED\<rparr>)
        \<and> (\<exists>new. attempts_of (run_delivery (\<lambda>n. ?w) ''task-1'' 1 0 (example_store ?d)) 1
                = attempts_of (example_store ?d) 1 @ new
              \<and> length new = max_retries + 1
              \<and> list_all (\<lambda>a. attempt_status a = Some FAILED) new)
        \<and> max_retries = 5"
    by blast
  then show ?thesis
    using empty st five by (auto simp: upt_5)
qed

text \<open>
  The claim as stated fails: a delivery to a queue that cannot be reached. The transport
  fails at the first attempt with a connection error, which is not a \<open>ClientError\<close>, so
  it leaves the router and the task: no retry is sent, the delivery stays \<open>PENDING\<close>
  and the one attempt has no result.
\<close>

theorem unreachable_queue_is_not_retried:
  "dispatch unreachable_queue_world
     (example_delivery PENDING
        (example_webhook 1 ''awssqs://k:s@sqs.us-west-2.amazonaws.com/123/q.fifo'' True None))
     = Inl \<lparr>exc_class = OtherException, exc_str = ''Could not connect to the endpoint URL'',
            exc_response = None\<rparr>
   \<and> task_queue (run_delivery (\<lambda>n. unreachable_queue_world) ''task-1'' 1 0
       (example_store (example_delivery PENDING
          (example_webhook 1 ''awssqs://k:s@sqs.us-west-2.amazonaws.com/123/q.fifo'' True
             None))))
     = []
   \<and> map delivery_status
       (delivery_rows (run_delivery (\<lambda>n. unreachable_queue_world) ''task-1'' 1 0
          (example_store (example_delivery PENDING
             (example_webhook 1 ''awssqs://k:s@sqs.us-west-2.amazonaws.com/123/q.fifo'' True
                None)))))
     = [PENDING]
   \<and> map attempt_status
       (attempt_rows (run_delivery (\<lambda>n. unreachable_queue_world) ''task-1'' 1 0
          (example_store (example_delivery PENDING
             (example_webhook 1 ''awssqs://k:s@sqs.us-west-2.amazonaws.com/123/q.fifo'' True
                None)))))
     = [None]"
proof -
  let ?w = "unreachable_queue_world"
  let ?u = "''awssqs://k:s@sqs.us-west-2.amazonaws.com/123/q.fifo''"
  let ?d = "example_delivery PENDING (example_webhook 1 ?u True None)"
  let ?e = "\<lparr>exc_class = OtherException, exc_str = ''Could not connect to the endpoint URL'',
            exc_response = None\<rparr>"
  have found: "get_delivery (example_store ?d) 1 = Some ?d"
    by (simp add: get_delivery_def example_store_def example_delivery_def)
  have active: "is_active (delivery_webhook ?d)"
    by (simp add: example_delivery_def example_webhook_def)
  have parts: "urlparse ?w ?u = example_urlparse ?u"
    by (simp add: unreachable_queue_world_def example_world_def)
  have known: "lower (scheme (example_urlparse ?u)) = ''awssqs''"
    by (simp add: example_urlparse_def lower_def lower_char_def)
  have host: "hostname (example_urlparse ?u) = Some ''sqs.us-west-2.amazonaws.com''"
    by (simp add: example_urlparse_def)
  have client: "boto3_client ?w c = None" for c
    by (simp add: unreachable_queue_world_def example_world_def)
  have send: "sqs_send_message ?w c k = Inl ?e" for c k
    by (simp add: unreachable_queue_world_def)
  have adapter: "send_webhook_using_aws_sqs ?w ?u m dm sg ev = Inl ?e" for m dm sg ev
    by (simp add: send_webhook_using_aws_sqs_def Let_def parts host client send)
  have unlisted: "\<not> caught_by ?e [ClientError]"
    by (simp add: caught_by_def isinstance_def)
  have d: "dispatch ?w ?d = Inl ?e"
    using unlisted
    by (simp add: dispatch_def send_webhook_using_scheme_method_def Let_def
        example_delivery_def example_webhook_def parts known scheme_matrix_get_known adapter)
  have other: "\<not> isinstance ?e ValueError"
    by (simp add: isinstance_def)
  have run: "run_delivery (\<lambda>n. ?w) ''task-1'' 1 0 (example_store ?d)
      = snd (create_attempt ?d (Some ''task-1'') (example_store ?d))"
    by (rule run_delivery_raised[where ws = "\<lambda>n. ?w" and e = ?e], rule found, rule active,
        rule d, rule other)
  have after: "task_queue (snd (create_attempt ?d (Some ''task-1'') (example_store ?d))) = []"
    "map delivery_status
       (delivery_rows (snd (create_attempt ?d (Some ''task-1'') (example_store ?d))))
     = [PENDING]"
    "map attempt_status
       (attempt_rows (snd (create_attempt ?d (Some ''task-1'') (example_store ?d))))
     = [None]"
    by (simp_all add: create_attempt_def Let_def example_store_def example_delivery_def)
  show ?thesis
    unfolding run using d after by simp
qed

subsection \<open>Fan-out\<close>

text \<open>
  C1. The fan-out of \<open>ORDER_CREATED\<close> (subscribable) to two raw endpoints and one
  subscription endpoint whose query renders a payload, on an empty store, creates four
  deliveries, not three: the raw branch is given every endpoint, so the subscription
  endpoint (3) gets a delivery of the shared raw payload (1) besides the delivery of its
  own rendered payload (2); all four are sent to the queue.
\<close>

theorem fan_out_two_raw_one_subscription:
  "map (\<lambda>d. (webhook_id (delivery_webhook d), payload_id (delivery_payload d),
             payload_text (delivery_payload d)))
     (delivery_rows
        (trigger_webhooks_async example_subscriptions ''raw'' ''ORDER_CREATED''
           [example_webhook 1 ''https://example.com/hook'' True None,
            example_webhook 2 ''https://example.com/hook'' True None,
            example_webhook 3 ''https://example.com/hook'' True (Some ''subscription'')]
           () () empty_store))
     = [(1, 1, ''raw''), (2, 1, ''raw''), (3, 1, ''raw''), (3, 2, ok_true_body)]
   \<and> map msg_delivery_id
       (task_queue
          (trigger_webhooks_async example_subscriptions ''raw'' ''ORDER_CREATED''
             [example_webhook 1 ''https://example.com/hook'' True None,
              example_webhook 2 ''https://example.com/hook'' True None,
              example_webhook 3 ''https://example.com/hook'' True (Some ''subscription'')]
             () () empty_store))
     = [1, 2, 3, 4]"
  by (simp add: trigger_webhooks_async_def group_webhooks_by_subscription_def truthy_def
      example_webhook_def EventPayload_create_def create_event_delivery_list_for_webhooks_def
      create_deliveries_for_subscriptions_def example_subscriptions_def empty_store_def
      fresh_id_def delay_def Let_def)

end
